theory Spec2Isabelle
  imports Main "HOL-Library.Sublist"
begin

section \<open>Data model (shared schema)\<close>

text \<open>
  The five tables of the shared schema. A nullable column is an \<open>option\<close>; a timestamp is
  a number of milliseconds. Field names are those of the schema, prefixed where two tables
  use the same name. The \<open>jsonb\<close> column \<open>groqAnalysis\<close> only ever receives the object
  \<^verbatim>\<open>{ analysis: <text> }\<close>, so it is modelled by that text.
\<close>

type_synonym timestamp = nat

record user =
  user_id :: string
  email :: "string option"
  isPremium :: "bool option"

record application =
  app_id :: nat
  userId :: string
  name :: string
  subdomain :: string
  description :: "string option"
  sourceType :: string
  sourceUrl :: "string option"
  buildCommand :: "string option"
  outputDir :: "string option"
  app_status :: string
  deploymentUrl :: "string option"
  storageUsed :: "nat option"
  lastDeployedAt :: "timestamp option"
  app_createdAt :: timestamp
  app_updatedAt :: timestamp

record deployment =
  dep_id :: nat
  dep_applicationId :: nat
  dep_status :: string
  buildLogs :: "string option"
  groqAnalysis :: "string option"
  deployedAt :: "timestamp option"
  dep_createdAt :: timestamp

record analytics_event =
  an_id :: nat
  an_applicationId :: nat
  visitorIp :: "string option"
  userAgent :: "string option"
  country :: "string option"
  city :: "string option"
  referer :: "string option"
  path :: "string option"
  visitedAt :: timestamp

record groq_conversation =
  conv_id :: nat
  conv_userId :: string
  message :: string
  response :: string
  conv_createdAt :: timestamp

text \<open>The database: one row list per table and the next value of each \<open>serial\<close> key.\<close>

record db =
  users :: "user list"
  applications :: "application list"
  deployments :: "deployment list"
  analytics :: "analytics_event list"
  groqConversations :: "groq_conversation list"
  applications_serial :: nat
  deployments_serial :: nat
  analytics_serial :: nat
  groqConversations_serial :: nat

text \<open>Insert and update payloads (\<open>InsertX\<close>, \<open>Partial<X>\<close>): an absent key is \<open>None\<close>.\<close>

record insert_application =
  ia_userId :: string
  ia_name :: string
  ia_subdomain :: string
  ia_description :: "string option"
  ia_sourceType :: string
  ia_sourceUrl :: "string option"
  ia_buildCommand :: "string option"
  ia_outputDir :: "string option"
  ia_status :: "string option"
  ia_deploymentUrl :: "string option"
  ia_storageUsed :: "nat option"
  ia_lastDeployedAt :: "timestamp option"

record application_updates =
  au_status :: "string option"
  au_lastDeployedAt :: "timestamp option"
  au_deploymentUrl :: "string option"

record insert_deployment =
  id_applicationId :: nat
  id_status :: "string option"

record deployment_updates =
  du_status :: "string option"
  du_deployedAt :: "timestamp option"
  du_buildLogs :: "string option"
  du_groqAnalysis :: "string option"

record insert_analytics =
  ins_applicationId :: nat
  ins_visitorIp :: "string option"
  ins_userAgent :: "string option"
  ins_path :: "string option"
  ins_referer :: "string option"
  ins_country :: "string option"
  ins_city :: "string option"

record insert_conversation =
  ic_userId :: string
  ic_message :: string
  ic_response :: string

section \<open>Storage layer (server/storage.ts)\<close>

text \<open>
  Each method of \<open>DatabaseStorage\<close> is the query it issues, as a function of the database.
  \<^verbatim>\<open>const [row] = await db.select()...\<close> takes the first row of the result, or
  \<open>undefined\<close> (\<open>None\<close>) when there is none. \<open>orderBy(desc(col))\<close> is a stable sort on the
  column, reversed.
\<close>

definition first_row :: "'a list \<Rightarrow> 'a option" where
  "first_row rows = (case rows of [] \<Rightarrow> None | r # _ \<Rightarrow> Some r)"

definition order_desc :: "('a \<Rightarrow> timestamp) \<Rightarrow> 'a list \<Rightarrow> 'a list" where
  "order_desc col rows = rev (sort_key col rows)"

definition getUser :: "db \<Rightarrow> string \<Rightarrow> user option" where
  "getUser d i = first_row (filter (\<lambda>u. user_id u = i) (users d))"

definition getUserApplications :: "db \<Rightarrow> string \<Rightarrow> application list" where
  "getUserApplications d uid =
     order_desc app_createdAt (filter (\<lambda>a. userId a = uid) (applications d))"

definition getApplication :: "db \<Rightarrow> nat \<Rightarrow> application option" where
  "getApplication d i = first_row (filter (\<lambda>a. app_id a = i) (applications d))"

definition createApplication ::
    "db \<Rightarrow> insert_application \<Rightarrow> timestamp \<Rightarrow> application \<times> db" where
  "createApplication d app now =
     (let newApp = \<lparr> app_id = applications_serial d,
                      userId = ia_userId app,
                      name = ia_name app,
                      subdomain = ia_subdomain app,
                      description = ia_description app,
                      sourceType = ia_sourceType app,
                      sourceUrl = ia_sourceUrl app,
                      buildCommand = ia_buildCommand app,
                      outputDir = (case ia_outputDir app of None \<Rightarrow> Some ''dist'' | Some o' \<Rightarrow> Some o'),
                      app_status = (case ia_status app of None \<Rightarrow> ''pending'' | Some s \<Rightarrow> s),
                      deploymentUrl = ia_deploymentUrl app,
                      storageUsed = (case ia_storageUsed app of None \<Rightarrow> Some 0 | Some n \<Rightarrow> Some n),
                      lastDeployedAt = ia_lastDeployedAt app,
                      app_createdAt = now,
                      app_updatedAt = now \<rparr>
      in (newApp, d\<lparr> applications := applications d @ [newApp],
                      applications_serial := Suc (applications_serial d) \<rparr>))"

definition set_application ::
    "application_updates \<Rightarrow> timestamp \<Rightarrow> application \<Rightarrow> application" where
  "set_application updates now a =
     a\<lparr> app_status := (case au_status updates of None \<Rightarrow> app_status a | Some s \<Rightarrow> s),
        lastDeployedAt := (case au_lastDeployedAt updates of None \<Rightarrow> lastDeployedAt a | Some t \<Rightarrow> Some t),
        deploymentUrl := (case au_deploymentUrl updates of None \<Rightarrow> deploymentUrl a | Some u \<Rightarrow> Some u),
        app_updatedAt := now \<rparr>"

definition updateApplication ::
    "db \<Rightarrow> nat \<Rightarrow> application_updates \<Rightarrow> timestamp \<Rightarrow> application option \<times> db" where
  "updateApplication d i updates now =
     (let rows = map (\<lambda>a. if app_id a = i then set_application updates now a else a) (applications d)
      in (first_row (filter (\<lambda>a. app_id a = i) rows), d\<lparr> applications := rows \<rparr>))"

definition deleteApplication :: "db \<Rightarrow> nat \<Rightarrow> unit \<times> db" where
  "deleteApplication d i = ((), d\<lparr> applications := filter (\<lambda>a. app_id a \<noteq> i) (applications d) \<rparr>)"

definition checkSubdomainAvailable :: "db \<Rightarrow> string \<Rightarrow> bool" where
  "checkSubdomainAvailable d s =
     (case first_row (filter (\<lambda>a. subdomain a = s) (applications d)) of
        None \<Rightarrow> True | Some existing \<Rightarrow> False)"

definition getApplicationDeployments :: "db \<Rightarrow> nat \<Rightarrow> deployment list" where
  "getApplicationDeployments d aid =
     order_desc dep_createdAt (filter (\<lambda>x. dep_applicationId x = aid) (deployments d))"

definition createDeployment :: "db \<Rightarrow> insert_deployment \<Rightarrow> timestamp \<Rightarrow> deployment \<times> db" where
  "createDeployment d dep now =
     (let newDeployment = \<lparr> dep_id = deployments_serial d,
                             dep_applicationId = id_applicationId dep,
                             dep_status = (case id_status dep of None \<Rightarrow> ''pending'' | Some s \<Rightarrow> s),
                             buildLogs = None,
                             groqAnalysis = None,
                             deployedAt = None,
                             dep_createdAt = now \<rparr>
      in (newDeployment, d\<lparr> deployments := deployments d @ [newDeployment],
                             deployments_serial := Suc (deployments_serial d) \<rparr>))"

definition set_deployment :: "deployment_updates \<Rightarrow> deployment \<Rightarrow> deployment" where
  "set_deployment updates x =
     x\<lparr> dep_status := (case du_status updates of None \<Rightarrow> dep_status x | Some s \<Rightarrow> s),
        deployedAt := (case du_deployedAt updates of None \<Rightarrow> deployedAt x | Some t \<Rightarrow> Some t),
        buildLogs := (case du_buildLogs updates of None \<Rightarrow> buildLogs x | Some l \<Rightarrow> Some l),
        groqAnalysis := (case du_groqAnalysis updates of None \<Rightarrow> groqAnalysis x | Some g \<Rightarrow> Some g) \<rparr>"

definition updateDeployment :: "db \<Rightarrow> nat \<Rightarrow> deployment_updates \<Rightarrow> deployment option \<times> db" where
  "updateDeployment d i updates =
     (let rows = map (\<lambda>x. if dep_id x = i then set_deployment updates x else x) (deployments d)
      in (first_row (filter (\<lambda>x. dep_id x = i) rows), d\<lparr> deployments := rows \<rparr>))"

definition recordAnalytics :: "db \<Rightarrow> insert_analytics \<Rightarrow> timestamp \<Rightarrow> unit \<times> db" where
  "recordAnalytics d analyticsData now =
     (let row = \<lparr> an_id = analytics_serial d,
                   an_applicationId = ins_applicationId analyticsData,
                   visitorIp = ins_visitorIp analyticsData,
                   userAgent = ins_userAgent analyticsData,
                   country = ins_country analyticsData,
                   city = ins_city analyticsData,
                   referer = ins_referer analyticsData,
                   path = ins_path analyticsData,
                   visitedAt = now \<rparr>
      in ((), d\<lparr> analytics := analytics d @ [row],
                  analytics_serial := Suc (analytics_serial d) \<rparr>))"

text \<open>
  \<open>getApplicationAnalytics\<close> computes the date \<open>days\<close> days before now and then selects on
  the application id alone: the source's \<open>where\<close> clause has no condition on \<open>visitedAt\<close>.
\<close>

definition day_ms :: nat where
  "day_ms = 86400000"

definition getApplicationAnalytics ::
    "db \<Rightarrow> nat \<Rightarrow> int \<Rightarrow> timestamp \<Rightarrow> analytics_event list" where
  "getApplicationAnalytics d applicationId days now =
     (let daysAgo = int now - days * int day_ms
      in order_desc visitedAt (filter (\<lambda>e. an_applicationId e = applicationId) (analytics d)))"

definition createConversation ::
    "db \<Rightarrow> insert_conversation \<Rightarrow> timestamp \<Rightarrow> groq_conversation \<times> db" where
  "createConversation d conversation now =
     (let newConversation = \<lparr> conv_id = groqConversations_serial d,
                               conv_userId = ic_userId conversation,
                               message = ic_message conversation,
                               response = ic_response conversation,
                               conv_createdAt = now \<rparr>
      in (newConversation, d\<lparr> groqConversations := groqConversations d @ [newConversation],
                               groqConversations_serial := Suc (groqConversations_serial d) \<rparr>))"

section \<open>The environment of a request\<close>

text \<open>
  A handler runs in a world: the database, the clock read by \<open>new Date()\<close>, and the behaviour
  of the database driver. Every \<open>await storage.m(...)\<close> consumes one entry of \<open>faults\<close>:
  \<open>Some msg\<close> makes the call throw an error with that message (a lost connection, a
  constraint of the schema that the statement violates) and leaves the database as it was,
  \<open>None\<close> (or an exhausted schedule) lets the query run. \<open>history\<close> records the database
  after every write that went through: it is what a client polling the records can observe.
  A handler, and a run of the pipeline, is taken in one piece: no other request runs in
  between.
\<close>

record world =
  store :: db
  clock :: timestamp
  faults :: "string option list"
  history :: "db list"

definition next_fault :: "string option list \<Rightarrow> string option" where
  "next_fault fs = (case fs of [] \<Rightarrow> None | f # _ \<Rightarrow> f)"

definition await_read :: "(db \<Rightarrow> 'a) \<Rightarrow> world \<Rightarrow> (string + 'a) \<times> world" where
  "await_read q w =
     (case next_fault (faults w) of
        Some msg \<Rightarrow> (Inl msg, w\<lparr> faults := drop 1 (faults w) \<rparr>)
      | None \<Rightarrow> (Inr (q (store w)), w\<lparr> faults := drop 1 (faults w) \<rparr>))"

definition await_write :: "(db \<Rightarrow> 'a \<times> db) \<Rightarrow> world \<Rightarrow> (string + 'a) \<times> world" where
  "await_write q w =
     (case next_fault (faults w) of
        Some msg \<Rightarrow> (Inl msg, w\<lparr> faults := drop 1 (faults w) \<rparr>)
      | None \<Rightarrow>
          (Inr (fst (q (store w))),
           w\<lparr> store := snd (q (store w)), faults := drop 1 (faults w),
              history := history w @ [snd (q (store w))] \<rparr>))"

text \<open>\<^verbatim>\<open>await new Promise(resolve => setTimeout(resolve, ms))\<close>: the clock moves on by \<open>ms\<close>.\<close>

definition sleep :: "nat \<Rightarrow> world \<Rightarrow> world" where
  "sleep ms w = w\<lparr> clock := clock w + ms \<rparr>"

text \<open>
  The completion service, as \<open>fetch\<close> and \<open>json()\<close> show it to the server: the request
  rejects, or a response arrives with a status code and a body. For the body there are the
  three cases that \<^verbatim>\<open>data.choices[0]?.message?.content\<close> tells apart:
  \<^item> \<open>BodyUnparseable\<close>: \<open>json()\<close> throws;
  \<^item> \<open>BodyNoChoices\<close>: the parsed value is \<open>null\<close>, or its \<open>choices\<close> is missing or \<open>null\<close>, so
    that \<^verbatim>\<open>data.choices[0]\<close> throws a \<open>TypeError\<close>;
  \<^item> \<open>BodyChoices cs\<close>: \<open>choices\<close> is any other value and indexing it does not throw; \<open>cs\<close> is
    what the indices show, each element with its \<open>message.content\<close> when there is one. A
    \<open>choices\<close> that is not an array (a number, a string, an object) shows no content.
  
  A content is a text, as the wire format of the service has it.
\<close>

datatype groq_body = BodyUnparseable | BodyNoChoices | BodyChoices "string option list"

datatype fetch_outcome = NetworkError string | HttpResponse nat groq_body

definition response_ok :: "nat \<Rightarrow> bool" where
  "response_ok code = (200 \<le> code \<and> code \<le> 299)"

text \<open>\<^verbatim>\<open>data.choices[0]?.message?.content || fallback\<close>: an absent or empty text is falsy.\<close>

definition first_content :: "string option list \<Rightarrow> string option" where
  "first_content choices = (case choices of [] \<Rightarrow> None | c # _ \<Rightarrow> c)"

definition or_default :: "string option \<Rightarrow> string \<Rightarrow> string" where
  "or_default v fallback = (case v of None \<Rightarrow> fallback | Some s \<Rightarrow> if s = [] then fallback else s)"

section \<open>Deployment pipeline (server/routes.ts, processDeployment)\<close>

definition newline :: char where
  "newline = CHR 0x0A"

fun join_lines :: "string list \<Rightarrow> string" where
  "join_lines [] = []"
| "join_lines [l] = l"
| "join_lines (l # ls) = l @ newline # join_lines ls"

text \<open>
  The inner \<open>try\<close> of the analysis stage: the text kept in \<open>analysisResult\<close> and the line
  pushed to \<open>logs\<close>. Every failure leaves \<open>analysisResult\<close> at its initial \<open>''\<close>.
\<close>

definition analyze :: "fetch_outcome \<Rightarrow> string \<times> string" where
  "analyze groq =
     (case groq of
        NetworkError e \<Rightarrow> ([], ''GroqAI analysis skipped - using default configuration'')
      | HttpResponse code body \<Rightarrow>
          if response_ok code then
            (case body of
               BodyUnparseable \<Rightarrow> ([], ''GroqAI analysis skipped - using default configuration'')
             | BodyNoChoices \<Rightarrow> ([], ''GroqAI analysis skipped - using default configuration'')
             | BodyChoices choices \<Rightarrow>
                 (or_default (first_content choices) ''Analysis completed'',
                  ''GroqAI analysis completed successfully''))
          else ([], ''GroqAI analysis skipped - using default configuration''))"

text \<open>
  The body of the \<open>try\<close> block. \<open>logs\<close> is a local array shared with the \<open>catch\<close> block,
  so a throw (\<open>Inl\<close>) carries the message of the error and the array as it was then.
  \<open>setTimeout\<close> lets the clock advance; nothing else in the block reads it.
\<close>

definition deployment_try ::
    "nat \<Rightarrow> application \<Rightarrow> fetch_outcome \<Rightarrow> world \<Rightarrow> (string \<times> string list + unit) \<times> world" where
  "deployment_try deploymentId app groq w =
     (let logs1 = [''Initializing deployment...'']
      in case await_write (\<lambda>d. updateDeployment d deploymentId
                \<lparr> du_status = None, du_deployedAt = None,
                  du_buildLogs = Some (join_lines logs1), du_groqAnalysis = None \<rparr>) w of
           (Inl e, w1) \<Rightarrow> (Inl (e, logs1), w1)
         | (Inr _, w1) \<Rightarrow>
             (let logs2 = logs1 @ [''Analyzing code with GroqAI...''];
                  analysisResult = fst (analyze groq);
                  logs3 = logs2 @ [snd (analyze groq)]
              in case await_write (\<lambda>d. updateDeployment d deploymentId
                        \<lparr> du_status = None, du_deployedAt = None,
                          du_buildLogs = Some (join_lines logs3),
                          du_groqAnalysis = Some analysisResult \<rparr>) w1 of
                   (Inl e, w2) \<Rightarrow> (Inl (e, logs3), w2)
                 | (Inr _, w2) \<Rightarrow>
                     (let logs4 = logs3 @ [''Optimizing dependencies...''];
                          w3 = sleep 1000 w2;
                          logs5 = logs4 @ [''Building application...''];
                          w4 = sleep 1500 w3;
                          logs6 = logs5 @ [''Running tests...''];
                          w5 = sleep 1000 w4;
                          logs7 = logs6 @ [''Deploying to CDN...''];
                          w6 = sleep 1500 w5;
                          logs8 = logs7 @ [''Configuring subdomain...''];
                          w7 = sleep 1000 w6;
                          logs9 = logs8 @ [''Deployment complete!'']
                      in case await_write (\<lambda>d. updateDeployment d deploymentId
                                \<lparr> du_status = Some ''success'', du_deployedAt = Some (clock w7),
                                  du_buildLogs = Some (join_lines logs9),
                                  du_groqAnalysis = None \<rparr>) w7 of
                           (Inl e, w8) \<Rightarrow> (Inl (e, logs9), w8)
                         | (Inr _, w8) \<Rightarrow>
                             (case await_write (\<lambda>d. updateApplication d (app_id app)
                                      \<lparr> au_status = Some ''live'',
                                        au_lastDeployedAt = Some (clock w8),
                                        au_deploymentUrl =
                                          Some (''https://'' @ subdomain app @ ''.seskrow.com'') \<rparr>
                                      (clock w8)) w8 of
                                (Inl e, w9) \<Rightarrow> (Inl (e, logs9), w9)
                              | (Inr _, w9) \<Rightarrow> (Inr (), w9)))))"

text \<open>
  The \<open>catch\<close> block. It has no handler of its own: when one of its two writes throws,
  the promise of \<open>processDeployment\<close> rejects (\<open>Inl\<close>), and nobody awaits that promise.
\<close>

definition failure_line :: "string \<Rightarrow> string" where
  "failure_line error_message = ''Deployment failed: '' @ error_message"

definition deployment_catch ::
    "nat \<Rightarrow> application \<Rightarrow> string list \<Rightarrow> string \<Rightarrow> world \<Rightarrow> (string + unit) \<times> world" where
  "deployment_catch deploymentId app logs error_message w =
     (let logs' = logs @ [failure_line error_message]
      in case await_write (\<lambda>d. updateDeployment d deploymentId
                \<lparr> du_status = Some ''failed'', du_deployedAt = None,
                  du_buildLogs = Some (join_lines logs'), du_groqAnalysis = None \<rparr>) w of
           (Inl e, w1) \<Rightarrow> (Inl e, w1)
         | (Inr _, w1) \<Rightarrow>
             (case await_write (\<lambda>d. updateApplication d (app_id app)
                      \<lparr> au_status = Some ''failed'', au_lastDeployedAt = None,
                        au_deploymentUrl = None \<rparr> (clock w1)) w1 of
                (Inl e, w2) \<Rightarrow> (Inl e, w2)
              | (Inr _, w2) \<Rightarrow> (Inr (), w2)))"

definition processDeployment ::
    "nat \<Rightarrow> application \<Rightarrow> fetch_outcome \<Rightarrow> world \<Rightarrow> (string + unit) \<times> world" where
  "processDeployment deploymentId app groq w =
     (case deployment_try deploymentId app groq w of
        (Inl (error_message, logs), w') \<Rightarrow> deployment_catch deploymentId app logs error_message w'
      | (Inr _, w') \<Rightarrow> (Inr (), w'))"

text \<open>Reading a deployment row back, as a polling client does.\<close>

definition getDeployment :: "db \<Rightarrow> nat \<Rightarrow> deployment option" where
  "getDeployment d i = first_row (filter (\<lambda>x. dep_id x = i) (deployments d))"


section \<open>Request handlers (server/routes.ts)\<close>

text \<open>
  A handler gets the authenticated principal (\<open>req.user.claims.sub\<close>), the parsed route
  parameter and the request body, and answers with a status code and a JSON body. The
  \<open>catch\<close> of each handler turns a throwing storage call into its 500 response.
\<close>

datatype body =
    Message string
  | ValidationMessage
  | JsonApplication application
  | JsonDeployment deployment
  | JsonDeployments "deployment list"
  | JsonAnalytics "analytics_event list"
  | JsonConversation groq_conversation
  | JsonChatResponse string
  | JsonSuccess
  | JsonAvailable bool
  | NoBody

type_synonym http_response = "nat \<times> body"

text \<open>\<^verbatim>\<open>app.get('/api/applications/:id', ...)\<close>\<close>

definition get_application_route :: "string \<Rightarrow> nat \<Rightarrow> world \<Rightarrow> http_response \<times> world" where
  "get_application_route sub applicationId w =
     (case await_read (\<lambda>d. getApplication d applicationId) w of
        (Inl e, w1) \<Rightarrow> ((500, Message ''Failed to fetch application''), w1)
      | (Inr None, w1) \<Rightarrow> ((404, Message ''Application not found''), w1)
      | (Inr (Some application), w1) \<Rightarrow>
          if userId application \<noteq> sub then ((403, Message ''Access denied''), w1)
          else ((200, JsonApplication application), w1))"

text \<open>
  \<^verbatim>\<open>app.post('/api/applications', ...)\<close>. The insert schema is derived from the table:
  a \<open>notNull\<close> column without a default is a required key, every other column is optional,
  and \<open>id\<close>, \<open>createdAt\<close>, \<open>updatedAt\<close> are omitted. The handler parses the body with
  \<open>userId\<close> set to the principal, whatever the body says.
\<close>

record application_body =
  b_name :: "string option"
  b_subdomain :: "string option"
  b_description :: "string option"
  b_sourceType :: "string option"
  b_sourceUrl :: "string option"
  b_buildCommand :: "string option"
  b_outputDir :: "string option"
  b_status :: "string option"
  b_deploymentUrl :: "string option"
  b_storageUsed :: "nat option"
  b_lastDeployedAt :: "timestamp option"

definition insertApplicationSchema_safeParse ::
    "application_body \<Rightarrow> string \<Rightarrow> insert_application option" where
  "insertApplicationSchema_safeParse b uid =
     (case (b_name b, b_subdomain b, b_sourceType b) of
        (Some n, Some s, Some t) \<Rightarrow>
          Some \<lparr> ia_userId = uid, ia_name = n, ia_subdomain = s,
                 ia_description = b_description b, ia_sourceType = t,
                 ia_sourceUrl = b_sourceUrl b, ia_buildCommand = b_buildCommand b,
                 ia_outputDir = b_outputDir b, ia_status = b_status b,
                 ia_deploymentUrl = b_deploymentUrl b, ia_storageUsed = b_storageUsed b,
                 ia_lastDeployedAt = b_lastDeployedAt b \<rparr>
      | _ \<Rightarrow> None)"

text \<open>\<^verbatim>\<open>!user?.isPremium\<close>: no user row, a null flag and \<open>false\<close> all count as not premium.\<close>

definition not_premium :: "user option \<Rightarrow> bool" where
  "not_premium u = (case u of None \<Rightarrow> True | Some x \<Rightarrow> isPremium x \<noteq> Some True)"

definition quota_message :: string where
  "quota_message = ''Free tier limited to 1 application. Upgrade to premium for unlimited apps.''"

definition post_applications_route ::
    "string \<Rightarrow> application_body \<Rightarrow> world \<Rightarrow> http_response \<times> world" where
  "post_applications_route sub b w =
     (case await_read (\<lambda>d. getUser d sub) w of
        (Inl e, w1) \<Rightarrow> ((500, Message ''Failed to create application''), w1)
      | (Inr user, w1) \<Rightarrow>
          (case await_read (\<lambda>d. getUserApplications d sub) w1 of
             (Inl e, w2) \<Rightarrow> ((500, Message ''Failed to create application''), w2)
           | (Inr userApps, w2) \<Rightarrow>
               if not_premium user \<and> length userApps \<ge> 1 then ((403, Message quota_message), w2)
               else
                 (case insertApplicationSchema_safeParse b sub of
                    None \<Rightarrow> ((400, ValidationMessage), w2)
                  | Some data \<Rightarrow>
                      (case await_read (\<lambda>d. checkSubdomainAvailable d (ia_subdomain data)) w2 of
                         (Inl e, w3) \<Rightarrow> ((500, Message ''Failed to create application''), w3)
                       | (Inr isAvailable, w3) \<Rightarrow>
                           if \<not> isAvailable then ((400, Message ''Subdomain already taken''), w3)
                           else
                             (case await_write (\<lambda>d. createApplication d data (clock w3)) w3 of
                                (Inl e, w4) \<Rightarrow> ((500, Message ''Failed to create application''), w4)
                              | (Inr application, w4) \<Rightarrow>
                                  ((201, JsonApplication application), w4))))))"

text \<open>\<^verbatim>\<open>app.delete('/api/applications/:id', ...)\<close>\<close>

definition delete_application_route :: "string \<Rightarrow> nat \<Rightarrow> world \<Rightarrow> http_response \<times> world" where
  "delete_application_route sub applicationId w =
     (case await_read (\<lambda>d. getApplication d applicationId) w of
        (Inl e, w1) \<Rightarrow> ((500, Message ''Failed to delete application''), w1)
      | (Inr None, w1) \<Rightarrow> ((404, Message ''Application not found''), w1)
      | (Inr (Some application), w1) \<Rightarrow>
          if userId application \<noteq> sub then ((403, Message ''Access denied''), w1)
          else
            (case await_write (\<lambda>d. deleteApplication d applicationId) w1 of
               (Inl e, w2) \<Rightarrow> ((500, Message ''Failed to delete application''), w2)
             | (Inr _, w2) \<Rightarrow> ((204, NoBody), w2)))"

text \<open>\<^verbatim>\<open>app.get('/api/applications/:id/deployments', ...)\<close>\<close>

definition get_deployments_route :: "string \<Rightarrow> nat \<Rightarrow> world \<Rightarrow> http_response \<times> world" where
  "get_deployments_route sub applicationId w =
     (case await_read (\<lambda>d. getApplication d applicationId) w of
        (Inl e, w1) \<Rightarrow> ((500, Message ''Failed to fetch deployments''), w1)
      | (Inr None, w1) \<Rightarrow> ((404, Message ''Application not found''), w1)
      | (Inr (Some application), w1) \<Rightarrow>
          if userId application \<noteq> sub then ((403, Message ''Access denied''), w1)
          else
            (case await_read (\<lambda>d. getApplicationDeployments d applicationId) w1 of
               (Inl e, w2) \<Rightarrow> ((500, Message ''Failed to fetch deployments''), w2)
             | (Inr deploymentRows, w2) \<Rightarrow> ((200, JsonDeployments deploymentRows), w2)))"

text \<open>
  \<^verbatim>\<open>app.post('/api/applications/:id/deploy', ...)\<close>. The handler creates the deployment
  row, starts \<open>processDeployment\<close> without awaiting it and answers: the third component is
  the task it leaves behind, the arguments of that call.
\<close>

definition post_deploy_route ::
    "string \<Rightarrow> nat \<Rightarrow> world \<Rightarrow> (http_response \<times> (nat \<times> application) option) \<times> world" where
  "post_deploy_route sub applicationId w =
     (case await_read (\<lambda>d. getApplication d applicationId) w of
        (Inl e, w1) \<Rightarrow> (((500, Message ''Failed to start deployment''), None), w1)
      | (Inr None, w1) \<Rightarrow> (((404, Message ''Application not found''), None), w1)
      | (Inr (Some application), w1) \<Rightarrow>
          if userId application \<noteq> sub then (((403, Message ''Access denied''), None), w1)
          else
            (case await_write (\<lambda>d. createDeployment d
                     \<lparr> id_applicationId = applicationId, id_status = Some ''building'' \<rparr>
                     (clock w1)) w1 of
               (Inl e, w2) \<Rightarrow> (((500, Message ''Failed to start deployment''), None), w2)
             | (Inr deployment, w2) \<Rightarrow>
                 (((201, JsonDeployment deployment), Some (dep_id deployment, application)), w2)))"

text \<open>
  \<^verbatim>\<open>app.get('/api/applications/:id/analytics', ...)\<close>. \<open>days\<close> is the query parameter
  after \<open>parseInt\<close> (\<open>None\<close> for \<open>NaN\<close>); \<^verbatim>\<open>parseInt(...) || 30\<close> replaces \<open>NaN\<close> and
  \<open>0\<close> by 30.
\<close>

definition days_or_default :: "int option \<Rightarrow> int" where
  "days_or_default q = (case q of None \<Rightarrow> 30 | Some n \<Rightarrow> if n = 0 then 30 else n)"

definition get_analytics_route ::
    "string \<Rightarrow> nat \<Rightarrow> int option \<Rightarrow> world \<Rightarrow> http_response \<times> world" where
  "get_analytics_route sub applicationId q w =
     (case await_read (\<lambda>d. getApplication d applicationId) w of
        (Inl e, w1) \<Rightarrow> ((500, Message ''Failed to fetch analytics''), w1)
      | (Inr None, w1) \<Rightarrow> ((404, Message ''Application not found''), w1)
      | (Inr (Some application), w1) \<Rightarrow>
          if userId application \<noteq> sub then ((403, Message ''Access denied''), w1)
          else
            (let days = days_or_default q
             in case await_read (\<lambda>d. getApplicationAnalytics d applicationId days (clock w1)) w1 of
                  (Inl e, w2) \<Rightarrow> ((500, Message ''Failed to fetch analytics''), w2)
                | (Inr analyticsRows, w2) \<Rightarrow> ((200, JsonAnalytics analyticsRows), w2)))"

text \<open>
  \<^verbatim>\<open>app.post('/api/groq/chat', ...)\<close>. The conversation schema requires \<open>message\<close> and
  \<open>response\<close> (both \<open>notNull\<close> text columns); the handler overwrites \<open>response\<close> with the
  reply before it inserts the row.
\<close>

record chat_body =
  cb_message :: "string option"
  cb_response :: "string option"

definition insertGroqConversationSchema_safeParse ::
    "chat_body \<Rightarrow> string \<Rightarrow> insert_conversation option" where
  "insertGroqConversationSchema_safeParse b uid =
     (case (cb_message b, cb_response b) of
        (Some m, Some r) \<Rightarrow> Some \<lparr> ic_userId = uid, ic_message = m, ic_response = r \<rparr>
      | _ \<Rightarrow> None)"

definition chat_fallback :: string where
  "chat_fallback = ''I apologize, but I'' @ [CHR 0x27] @ ''m having trouble connecting to the AI service right now. Please try again in a moment, or contact support if the issue persists.''"

definition chat_empty_fallback :: string where
  "chat_empty_fallback = ''Sorry, I could not generate a response.''"

text \<open>
  The reply of the authenticated handler: a status that is not 2xx throws, and so do a
  body that does not parse and a body without choices; the inner \<open>catch\<close> answers all of
  them, and a rejected request, with \<open>chat_fallback\<close>.
\<close>

definition chat_reply :: "fetch_outcome \<Rightarrow> string" where
  "chat_reply groq =
     (case groq of
        NetworkError e \<Rightarrow> chat_fallback
      | HttpResponse code body \<Rightarrow>
          if \<not> response_ok code then chat_fallback
          else
            (case body of
               BodyUnparseable \<Rightarrow> chat_fallback
             | BodyNoChoices \<Rightarrow> chat_fallback
             | BodyChoices choices \<Rightarrow> or_default (first_content choices) chat_empty_fallback))"

definition post_chat_route ::
    "string \<Rightarrow> chat_body \<Rightarrow> fetch_outcome \<Rightarrow> world \<Rightarrow> http_response \<times> world" where
  "post_chat_route sub b groq w =
     (case insertGroqConversationSchema_safeParse b sub of
        None \<Rightarrow> ((400, ValidationMessage), w)
      | Some data \<Rightarrow>
          (let reply = chat_reply groq
           in case await_write (\<lambda>d. createConversation d (data\<lparr> ic_response := reply \<rparr>)
                      (clock w)) w of
                (Inl e, w1) \<Rightarrow> ((500, Message ''Failed to process chat message''), w1)
              | (Inr conversation, w1) \<Rightarrow> ((201, JsonConversation conversation), w1)))"

text \<open>
  \<^verbatim>\<open>app.post('/api/groq/public-chat', ...)\<close>. The \<open>message\<close> of the body is \<open>None\<close> when it
  is missing or not a string; the empty string is falsy and is rejected too. The handler
  touches no storage.
\<close>

definition public_chat_empty_fallback :: string where
  "public_chat_empty_fallback = ''I apologize, but I cannot provide a response at the moment.''"

definition public_chat_not_ok :: string where
  "public_chat_not_ok = ''I'' @ [CHR 0x27] @ ''m having trouble connecting right now. Please try again or contact our support team for assistance.''"

definition public_chat_unavailable :: string where
  "public_chat_unavailable = ''I'' @ [CHR 0x27] @ ''m currently unavailable. Please try again later or contact our support team for help.''"

definition public_chat_reply :: "fetch_outcome \<Rightarrow> string" where
  "public_chat_reply groq =
     (case groq of
        NetworkError e \<Rightarrow> public_chat_unavailable
      | HttpResponse code body \<Rightarrow>
          if response_ok code then
            (case body of
               BodyUnparseable \<Rightarrow> public_chat_unavailable
             | BodyNoChoices \<Rightarrow> public_chat_unavailable
             | BodyChoices choices \<Rightarrow>
                 or_default (first_content choices) public_chat_empty_fallback)
          else public_chat_not_ok)"

definition post_public_chat_route :: "string option \<Rightarrow> fetch_outcome \<Rightarrow> http_response" where
  "post_public_chat_route msg groq =
     (case msg of
        None \<Rightarrow> (400, Message ''Message is required'')
      | Some m \<Rightarrow>
          if m = [] then (400, Message ''Message is required'')
          else (200, JsonChatResponse (public_chat_reply groq)))"

text \<open>
  \<^verbatim>\<open>app.post('/api/track/:subdomain', ...)\<close>. The application is looked for among
  \<^verbatim>\<open>storage.getUserApplications("")\<close>, the applications whose owner is the empty string.
\<close>

record track_request =
  tr_ip :: "string option"
  tr_userAgent :: "string option"
  tr_path :: "string option"
  tr_referer :: "string option"

definition find_first :: "('a \<Rightarrow> bool) \<Rightarrow> 'a list \<Rightarrow> 'a option" where
  "find_first p xs = first_row (filter p xs)"

definition post_track_route :: "string \<Rightarrow> track_request \<Rightarrow> world \<Rightarrow> http_response \<times> world" where
  "post_track_route sd req w =
     (case await_read (\<lambda>d. getUserApplications d []) w of
        (Inl e, w1) \<Rightarrow> ((500, Message ''Failed to track analytics''), w1)
      | (Inr apps, w1) \<Rightarrow>
          (case find_first (\<lambda>app. subdomain app = sd) apps of
             None \<Rightarrow> ((404, Message ''Application not found''), w1)
           | Some application \<Rightarrow>
               (case await_write (\<lambda>d. recordAnalytics d
                        \<lparr> ins_applicationId = app_id application,
                          ins_visitorIp = tr_ip req,
                          ins_userAgent = Some (or_default (tr_userAgent req) []),
                          ins_path = Some (or_default (tr_path req) ''/''),
                          ins_referer = Some (or_default (tr_referer req) []),
                          ins_country = Some ''Unknown'',
                          ins_city = Some ''Unknown'' \<rparr> (clock w1)) w1 of
                  (Inl e, w2) \<Rightarrow> ((500, Message ''Failed to track analytics''), w2)
                | (Inr _, w2) \<Rightarrow> ((200, JsonSuccess), w2))))"

text \<open>\<^verbatim>\<open>app.get('/api/check-subdomain/:subdomain', ...)\<close>\<close>

definition check_subdomain_route :: "string \<Rightarrow> world \<Rightarrow> http_response \<times> world" where
  "check_subdomain_route sd w =
     (case await_read (\<lambda>d. checkSubdomainAvailable d sd) w of
        (Inl e, w1) \<Rightarrow> ((500, Message ''Failed to check subdomain''), w1)
      | (Inr isAvailable, w1) \<Rightarrow> ((200, JsonAvailable isAvailable), w1))"

section \<open>Observations of a deployment\<close>

text \<open>
  What a client polling a deployment record sees: the row with a given id in the current
  database and in every database of the history, and the lines of its \<open>buildLogs\<close> text
  (\<^verbatim>\<open>text.split('\n')\<close>; no text yet means no lines).
\<close>

fun split_lines :: "string \<Rightarrow> string list" where
  "split_lines [] = [[]]"
| "split_lines (c # cs) =
     (if c = newline then [] # split_lines cs
      else (case split_lines cs of [] \<Rightarrow> [[c]] | l # ls \<Rightarrow> (c # l) # ls))"

definition log_lines :: "deployment option \<Rightarrow> string list" where
  "log_lines row =
     (case row of
        None \<Rightarrow> []
      | Some x \<Rightarrow> (case buildLogs x of None \<Rightarrow> [] | Some t \<Rightarrow> split_lines t))"

text \<open>Each observation keeps every line of the one before it, in order, and may add lines.\<close>

fun monotone_logs :: "string list list \<Rightarrow> bool" where
  "monotone_logs (a # b # rest) = (prefix a b \<and> monotone_logs (b # rest))"
| "monotone_logs _ = True"

definition observed_rows :: "nat \<Rightarrow> world \<Rightarrow> deployment option list" where
  "observed_rows i w = map (\<lambda>s. getDeployment s i) (history w)"

text \<open>
  The log lines seen during a run that starts in \<open>w\<close> and ends in \<open>w'\<close>: those of the row
  before the run, then those after each write of the run.
\<close>

definition observed :: "nat \<Rightarrow> world \<Rightarrow> world \<Rightarrow> string list list" where
  "observed i w w' =
     map log_lines (getDeployment (store w) i # drop (length (history w)) (observed_rows i w'))"

text \<open>
  The status of a deployment and of an application after each write of a run from \<open>w\<close>
  to \<open>w'\<close>.
\<close>

definition observed_statuses ::
    "nat \<Rightarrow> nat \<Rightarrow> world \<Rightarrow> world \<Rightarrow> (string option \<times> string option) list" where
  "observed_statuses i j w w' =
     map (\<lambda>s. (map_option dep_status (getDeployment s i),
               map_option app_status (getApplication s j)))
       (drop (length (history w)) (history w'))"

text \<open>
  A deployment row after an update that writes status \<open>failed\<close> and a log text to the
  deployment \<open>i\<close> and nothing else.
\<close>

definition mark_failed :: "nat \<Rightarrow> string \<Rightarrow> deployment \<Rightarrow> deployment" where
  "mark_failed i t x = (if dep_id x = i then x\<lparr> dep_status := ''failed'', buildLogs := Some t \<rparr> else x)"

text \<open>Some write of the run left the deployment with status \<open>success\<close>.\<close>

definition success_seen :: "nat \<Rightarrow> world \<Rightarrow> world \<Rightarrow> bool" where
  "success_seen i w w' =
     (Some ''success'' \<in> set (map (map_option dep_status)
        (drop (length (history w)) (observed_rows i w'))))"

text \<open>The first \<open>n\<close> storage calls of a schedule go through.\<close>

definition no_fault :: "nat \<Rightarrow> string option list \<Rightarrow> bool" where
  "no_fault n fs = (\<forall>f \<in> set (take n fs). f = None)"

text \<open>
  The ways the completion call can fail, in the words of the specification of the analysis
  client. \<open>upstream_error\<close>: the request rejects, the status is not 2xx, the body does
  not parse, or reading the first choice throws. \<open>empty_response\<close>: a 2xx answer that parses
  and whose first choice has no text (no choice at all, no content, or an empty content).
  Any other outcome is a 2xx answer whose first choice has a non-empty text.
\<close>

definition upstream_error :: "fetch_outcome \<Rightarrow> bool" where
  "upstream_error groq =
     (case groq of
        NetworkError e \<Rightarrow> True
      | HttpResponse code body \<Rightarrow>
          \<not> response_ok code \<or> body = BodyUnparseable \<or> body = BodyNoChoices)"

definition empty_response :: "fetch_outcome \<Rightarrow> bool" where
  "empty_response groq =
     (case groq of
        NetworkError e \<Rightarrow> False
      | HttpResponse code body \<Rightarrow>
          response_ok code \<and>
          (case body of
             BodyChoices choices \<Rightarrow> first_content choices = None \<or> first_content choices = Some []
           | _ \<Rightarrow> False))"

text \<open>The log of a run that reaches its end, given the line of the analysis stage.\<close>

definition complete_log :: "string \<Rightarrow> string" where
  "complete_log analysis_line =
     join_lines [''Initializing deployment...'', ''Analyzing code with GroqAI...'', analysis_line,
       ''Optimizing dependencies...'', ''Building application...'', ''Running tests...'',
       ''Deploying to CDN...'', ''Configuring subdomain...'', ''Deployment complete!'']"

text \<open>A text starts with a given text.\<close>

definition starts_with :: "string \<Rightarrow> string \<Rightarrow> bool" where
  "starts_with p s = (take (length p) s = p)"

subsection \<open>The stages of a run\<close>

text \<open>
  The contents of \<open>logs\<close> at the three writes of the \<open>try\<close> block, and the deployment row
  after each of them and after the write of the \<open>catch\<close> block.
\<close>

definition logsA :: "string list" where
  "logsA = [''Initializing deployment...'']"

definition logsB :: "fetch_outcome \<Rightarrow> string list" where
  "logsB groq = logsA @ [''Analyzing code with GroqAI...'', snd (analyze groq)]"

definition logsC :: "fetch_outcome \<Rightarrow> string list" where
  "logsC groq = logsB groq @ [''Optimizing dependencies...'', ''Building application...'',
     ''Running tests...'', ''Deploying to CDN...'', ''Configuring subdomain...'',
     ''Deployment complete!'']"

definition rowA :: "deployment \<Rightarrow> deployment" where
  "rowA x = x\<lparr> buildLogs := Some (join_lines logsA) \<rparr>"

definition rowB :: "fetch_outcome \<Rightarrow> deployment \<Rightarrow> deployment" where
  "rowB groq x = x\<lparr> buildLogs := Some (join_lines (logsB groq)),
                     groqAnalysis := Some (fst (analyze groq)) \<rparr>"

definition rowC :: "fetch_outcome \<Rightarrow> timestamp \<Rightarrow> deployment \<Rightarrow> deployment" where
  "rowC groq t x = x\<lparr> dep_status := ''success'', deployedAt := Some t,
                       buildLogs := Some (join_lines (logsC groq)),
                       groqAnalysis := Some (fst (analyze groq)) \<rparr>"

definition rowF :: "string list \<Rightarrow> string \<Rightarrow> deployment \<Rightarrow> deployment" where
  "rowF logs e x = x\<lparr> dep_status := ''failed'',
                       buildLogs := Some (join_lines (logs @ [failure_line e])) \<rparr>"

definition live_updates :: "application \<Rightarrow> timestamp \<Rightarrow> application_updates" where
  "live_updates app t = \<lparr> au_status = Some ''live'', au_lastDeployedAt = Some t,
      au_deploymentUrl = Some (''https://'' @ subdomain app @ ''.seskrow.com'') \<rparr>"

subsection \<open>A small installation\<close>

text \<open>
  A free-tier user with one application and a deployment just created by the deploy
  handler, and a premium user with no application; the worlds built on it differ in the
  schedule of the driver.
\<close>

definition demo_user :: user where
  "demo_user = \<lparr> user_id = ''u1'', email = None, isPremium = Some False \<rparr>"

definition demo_premium_user :: user where
  "demo_premium_user = \<lparr> user_id = ''u2'', email = None, isPremium = Some True \<rparr>"

definition demo_app :: application where
  "demo_app = \<lparr> app_id = 3, userId = ''u1'', name = ''Demo'', subdomain = ''demo-1'',
       description = None, sourceType = ''zip'', sourceUrl = None, buildCommand = None,
       outputDir = Some ''dist'', app_status = ''pending'', deploymentUrl = None,
       storageUsed = Some 0, lastDeployedAt = None, app_createdAt = 5, app_updatedAt = 5 \<rparr>"

definition demo_deployment :: deployment where
  "demo_deployment = \<lparr> dep_id = 7, dep_applicationId = 3, dep_status = ''building'',
       buildLogs = None, groqAnalysis = None, deployedAt = None, dep_createdAt = 10 \<rparr>"

definition demo_db :: db where
  "demo_db = \<lparr> users = [demo_user, demo_premium_user], applications = [demo_app],
       deployments = [demo_deployment], analytics = [], groqConversations = [],
       applications_serial = 4, deployments_serial = 8, analytics_serial = 1,
       groqConversations_serial = 1 \<rparr>"

definition demo_world :: "string option list \<Rightarrow> world" where
  "demo_world fs = \<lparr> store = demo_db, clock = 10, faults = fs, history = [] \<rparr>"

text \<open>A creation request for a second application, with the subdomain asked for.\<close>

definition demo_body :: "string \<Rightarrow> application_body" where
  "demo_body s = \<lparr> b_name = Some ''Second'', b_subdomain = Some s, b_description = None,
       b_sourceType = Some ''github'', b_sourceUrl = None, b_buildCommand = None,
       b_outputDir = None, b_status = None, b_deploymentUrl = None, b_storageUsed = None,
       b_lastDeployedAt = None \<rparr>"

text \<open>
  The same installation a hundred days later, with two visits of the application on
  record: one at the start of the epoch, one the day before.
\<close>

definition old_visit :: analytics_event where
  "old_visit = \<lparr> an_id = 1, an_applicationId = 3, visitorIp = Some ''203.0.113.9'',
       userAgent = Some ''curl'', country = Some ''Unknown'', city = Some ''Unknown'',
       referer = Some [], path = Some ''/'', visitedAt = 0 \<rparr>"

definition recent_visit :: analytics_event where
  "recent_visit = \<lparr> an_id = 2, an_applicationId = 3, visitorIp = Some ''203.0.113.9'',
       userAgent = Some ''curl'', country = Some ''Unknown'', city = Some ''Unknown'',
       referer = Some [], path = Some ''/'', visitedAt = 99 * day_ms \<rparr>"

definition demo_visits_world :: world where
  "demo_visits_world = \<lparr> store = demo_db\<lparr> analytics := [old_visit, recent_visit], analytics_serial := 3 \<rparr>,
       clock = 100 * day_ms, faults = [], history = [] \<rparr>"

definition demo_track_request :: track_request where
  "demo_track_request = \<lparr> tr_ip = Some ''203.0.113.9'', tr_userAgent = Some ''curl'',
       tr_path = Some ''/pricing'', tr_referer = None \<rparr>"

definition demo_chat_body :: chat_body where
  "demo_chat_body = \<lparr> cb_message = Some ''How do I deploy?'', cb_response = Some [] \<rparr>"

text \<open>An error message of two lines.\<close>

definition two_line_message :: string where
  "two_line_message = ''connection lost'' @ newline # ''retry later''"

section \<open>Properties of the storage layer and of the pipeline\<close>

declare join_lines.simps [simp del]

lemma first_row_update:
  assumes "\<And>x. key (f x) = key x"
  shows "first_row (filter (\<lambda>x. key x = j) (map (\<lambda>x. if key x = i then f x else x) xs)) =
         (if j = i then map_option f (first_row (filter (\<lambda>x. key x = j) xs))
          else first_row (filter (\<lambda>x. key x = j) xs))"
  using assms by (induction xs) (auto simp: first_row_def)

lemma dep_id_set_deployment: "dep_id (set_deployment u x) = dep_id x"
  by (simp add: set_deployment_def)

lemma app_id_set_application: "app_id (set_application u t a) = app_id a"
  by (simp add: set_application_def)

lemma getDeployment_updateDeployment:
  "getDeployment (snd (updateDeployment d i u)) j =
     (if j = i then map_option (set_deployment u) (getDeployment d j) else getDeployment d j)"
  unfolding getDeployment_def updateDeployment_def Let_def
  by (simp add: first_row_update [where key = dep_id] dep_id_set_deployment)

lemma getDeployment_updateApplication:
  "getDeployment (snd (updateApplication d i u t)) j = getDeployment d j"
  by (simp add: getDeployment_def updateApplication_def Let_def)

lemma getApplication_updateDeployment:
  "getApplication (snd (updateDeployment d i u)) j = getApplication d j"
  by (simp add: getApplication_def updateDeployment_def Let_def)

lemma getApplication_updateApplication:
  "getApplication (snd (updateApplication d i u t)) j =
     (if j = i then map_option (set_application u t) (getApplication d j) else getApplication d j)"
  unfolding getApplication_def updateApplication_def Let_def
  by (simp add: first_row_update [where key = app_id] app_id_set_application)

lemmas store_simps = getDeployment_updateDeployment getDeployment_updateApplication
  getApplication_updateDeployment getApplication_updateApplication

lemma await_write_throw:
  "next_fault (faults w) = Some msg \<Longrightarrow> await_write q w = (Inl msg, w\<lparr> faults := drop 1 (faults w) \<rparr>)"
  by (simp add: await_write_def)

lemma await_write_ok:
  "next_fault (faults w) = None \<Longrightarrow>
   await_write q w = (Inr (fst (q (store w))),
      w\<lparr> store := snd (q (store w)), faults := drop 1 (faults w),
         history := history w @ [snd (q (store w))] \<rparr>)"
  by (simp add: await_write_def)

lemma next_fault_in:
  assumes "next_fault (drop k fs) = Some e"
  shows "Some e \<in> set fs"
proof (cases "drop k fs")
  case Nil
  with assms show ?thesis by (simp add: next_fault_def)
next
  case (Cons x xs)
  with assms have "Some e \<in> set (drop k fs)" by (simp add: next_fault_def)
  then show ?thesis by (rule in_set_dropD)
qed

lemma next_fault_in2: "next_fault (drop 1 (drop 1 fs)) = Some e \<Longrightarrow> Some e \<in> set fs"
  by (metis next_fault_in drop_drop)

lemma next_fault_in3: "next_fault (drop 1 (drop 1 (drop 1 fs))) = Some e \<Longrightarrow> Some e \<in> set fs"
  by (metis next_fault_in drop_drop)

lemma next_fault_in0: "next_fault fs = Some e \<Longrightarrow> Some e \<in> set fs"
  using next_fault_in [of 0 fs e] by simp


lemmas try_simps = deployment_try_def await_write_throw await_write_ok observed_rows_def Let_def
  sleep_def logsA_def logsB_def logsC_def rowA_def rowB_def rowC_def store_simps
  set_deployment_def live_updates_def

lemma try_throw1:
  assumes "next_fault (faults w) = Some e"
  shows "fst (deployment_try i app groq w) = Inl (e, logsA) \<and>
         store (snd (deployment_try i app groq w)) = store w \<and>
         observed_rows i (snd (deployment_try i app groq w)) = observed_rows i w"
  using assms by (simp add: try_simps)

lemma try_throw2:
  assumes "getDeployment (store w) i = Some d0"
      and "next_fault (faults w) = None" and "next_fault (drop 1 (faults w)) = Some e"
  shows "fst (deployment_try i app groq w) = Inl (e, logsB groq) \<and>
         getDeployment (store (snd (deployment_try i app groq w))) i = Some (rowA d0) \<and>
         observed_rows i (snd (deployment_try i app groq w)) = observed_rows i w @ [Some (rowA d0)]"
  using assms by (simp add: try_simps)

lemma try_throw3:
  assumes "getDeployment (store w) i = Some d0"
      and "next_fault (faults w) = None" and "next_fault (drop 1 (faults w)) = None"
      and "next_fault (drop 1 (drop 1 (faults w))) = Some e"
  shows "fst (deployment_try i app groq w) = Inl (e, logsC groq) \<and>
         getDeployment (store (snd (deployment_try i app groq w))) i = Some (rowB groq d0) \<and>
         observed_rows i (snd (deployment_try i app groq w)) = observed_rows i w @ [Some (rowA d0), Some (rowB groq d0)]"
  using assms by (simp add: try_simps)

lemma try_throw4:
  assumes "getDeployment (store w) i = Some d0"
      and "next_fault (faults w) = None" and "next_fault (drop 1 (faults w)) = None"
      and "next_fault (drop 1 (drop 1 (faults w))) = None" and "next_fault (drop 1 (drop 1 (drop 1 (faults w)))) = Some e"
  shows "fst (deployment_try i app groq w) = Inl (e, logsC groq) \<and>
         getDeployment (store (snd (deployment_try i app groq w))) i =
           Some (rowC groq (clock w + 6000) d0) \<and>
         observed_rows i (snd (deployment_try i app groq w)) =
           observed_rows i w @ [Some (rowA d0), Some (rowB groq d0), Some (rowC groq (clock w + 6000) d0)]"
  using assms by (simp add: try_simps)

lemma try_done:
  assumes "getDeployment (store w) i = Some d0"
      and "next_fault (faults w) = None" and "next_fault (drop 1 (faults w)) = None"
      and "next_fault (drop 1 (drop 1 (faults w))) = None" and "next_fault (drop 1 (drop 1 (drop 1 (faults w)))) = None"
  shows "fst (deployment_try i app groq w) = Inr () \<and>
         getDeployment (store (snd (deployment_try i app groq w))) i =
           Some (rowC groq (clock w + 6000) d0) \<and>
         observed_rows i (snd (deployment_try i app groq w)) =
           observed_rows i w @ [Some (rowA d0), Some (rowB groq d0), Some (rowC groq (clock w + 6000) d0),
                       Some (rowC groq (clock w + 6000) d0)] \<and>
         getApplication (store (snd (deployment_try i app groq w))) (app_id app) =
           map_option (set_application (live_updates app (clock w + 6000)) (clock w + 6000))
             (getApplication (store w) (app_id app))"
  using assms by (simp add: try_simps ac_simps)


lemma deployment_try_outcomes:
  assumes "getDeployment (store w) i = Some d0"
      and "deployment_try i app groq w = (r, w')"
  shows "(\<exists>e. Some e \<in> set (faults w) \<and> r = Inl (e, logsA) \<and>
              getDeployment (store w') i = Some d0 \<and> observed_rows i w' = observed_rows i w)
       \<or> (\<exists>e. Some e \<in> set (faults w) \<and> r = Inl (e, logsB groq) \<and>
              getDeployment (store w') i = Some (rowA d0) \<and>
              observed_rows i w' = observed_rows i w @ [Some (rowA d0)])
       \<or> (\<exists>e. Some e \<in> set (faults w) \<and> r = Inl (e, logsC groq) \<and>
              getDeployment (store w') i = Some (rowB groq d0) \<and>
              observed_rows i w' = observed_rows i w @ [Some (rowA d0), Some (rowB groq d0)])
       \<or> (\<exists>e. Some e \<in> set (faults w) \<and> r = Inl (e, logsC groq) \<and>
              getDeployment (store w') i = Some (rowC groq (clock w + 6000) d0) \<and>
              observed_rows i w' = observed_rows i w @ [Some (rowA d0), Some (rowB groq d0),
                                       Some (rowC groq (clock w + 6000) d0)])
       \<or> (r = Inr () \<and>
              getDeployment (store w') i = Some (rowC groq (clock w + 6000) d0) \<and>
              observed_rows i w' = observed_rows i w @ [Some (rowA d0), Some (rowB groq d0),
                                       Some (rowC groq (clock w + 6000) d0),
                                       Some (rowC groq (clock w + 6000) d0)])"
proof -
  have r: "r = fst (deployment_try i app groq w)" and w': "w' = snd (deployment_try i app groq w)"
    using assms(2) by simp_all
  show ?thesis
  proof (cases "next_fault (faults w)")
    case (Some e)
    then show ?thesis
      using try_throw1 [OF Some, of i app groq] next_fault_in0 [OF Some] assms(1)
      by (simp add: r w')
  next
    case f1: None
    show ?thesis
    proof (cases "next_fault (drop 1 (faults w))")
      case (Some e)
      then show ?thesis
        using try_throw2 [OF assms(1) f1 Some, of app groq] next_fault_in [OF Some]
        by (simp add: r w')
    next
      case f2: None
      show ?thesis
      proof (cases "next_fault (drop 1 (drop 1 (faults w)))")
        case (Some e)
        then show ?thesis
          using try_throw3 [OF assms(1) f1 f2 Some, of app groq] next_fault_in2 [OF Some]
          by (simp add: r w')
      next
        case f3: None
        show ?thesis
        proof (cases "next_fault (drop 1 (drop 1 (drop 1 (faults w))))")
          case (Some e)
          then show ?thesis
            using try_throw4 [OF assms(1) f1 f2 f3 Some, of app groq]
              next_fault_in3 [OF Some]
            by (simp add: r w')
        next
          case f4: None
          show ?thesis
            using try_done [OF assms(1) f1 f2 f3 f4, of app groq] by (simp add: r w')
        qed
      qed
    qed
  qed
qed

lemmas catch_simps = deployment_catch_def await_write_throw await_write_ok observed_rows_def Let_def
  rowF_def store_simps set_deployment_def

lemma deployment_catch_outcomes:
  assumes "getDeployment (store w) i = Some d"
      and "deployment_catch i app logs e w = (r, w')"
  shows "(r \<noteq> Inr () \<and> getDeployment (store w') i = Some d \<and> observed_rows i w' = observed_rows i w)
       \<or> (r \<noteq> Inr () \<and> getDeployment (store w') i = Some (rowF logs e d) \<and>
              observed_rows i w' = observed_rows i w @ [Some (rowF logs e d)])
       \<or> (r = Inr () \<and> getDeployment (store w') i = Some (rowF logs e d) \<and>
              observed_rows i w' = observed_rows i w @ [Some (rowF logs e d), Some (rowF logs e d)])"
proof -
  have r: "r = fst (deployment_catch i app logs e w)"
    and w': "w' = snd (deployment_catch i app logs e w)"
    using assms(2) by simp_all
  show ?thesis
  proof (cases "next_fault (faults w)")
    case (Some e')
    then show ?thesis
      using assms(1) by (simp add: r w' catch_simps)
  next
    case f1: None
    show ?thesis
    proof (cases "next_fault (drop 1 (faults w))")
      case (Some e')
      then show ?thesis
        using assms(1) f1 by (simp add: r w' catch_simps)
    next
      case None
      then show ?thesis
        using assms(1) f1 by (simp add: r w' catch_simps)
    qed
  qed
qed


lemma split_lines_nonempty: "split_lines s \<noteq> []"
  by (induction s) (auto split: list.splits)

lemma split_lines_append: "split_lines (a @ newline # b) = split_lines a @ split_lines b"
  by (induction a) (auto simp: split_lines_nonempty split: list.splits)

lemma split_lines_single: "newline \<notin> set s \<Longrightarrow> split_lines s = [s]"
  by (induction s) auto

lemma join_lines_append:
  "ls \<noteq> [] \<Longrightarrow> ms \<noteq> [] \<Longrightarrow> join_lines (ls @ ms) = join_lines ls @ newline # join_lines ms"
  by (induction ls rule: join_lines.induct) (auto simp: join_lines.simps neq_Nil_conv)

lemma lines_prefix:
  "ls \<noteq> [] \<Longrightarrow> prefix (split_lines (join_lines ls)) (split_lines (join_lines (ls @ ms)))"
  by (cases "ms = []") (simp_all add: join_lines_append split_lines_append)

lemma last_line_snoc:
  "ls \<noteq> [] \<Longrightarrow> newline \<notin> set l \<Longrightarrow> last (split_lines (join_lines (ls @ [l]))) = l"
  by (simp add: join_lines_append split_lines_append split_lines_single join_lines.simps)

lemma logs_nonempty: "logsA \<noteq> []" "logsB groq \<noteq> []" "logsC groq \<noteq> []"
  by (simp_all add: logsA_def logsB_def logsC_def)

lemma prefix_A_B: "prefix (split_lines (join_lines logsA)) (split_lines (join_lines (logsB groq @ ms)))"
  unfolding logsB_def append_assoc by (rule lines_prefix) (rule logs_nonempty)

lemma prefix_B_C: "prefix (split_lines (join_lines (logsB groq))) (split_lines (join_lines (logsC groq @ ms)))"
  unfolding logsC_def append_assoc by (rule lines_prefix) (rule logs_nonempty)

lemma prefix_C_F: "prefix (split_lines (join_lines (logsC groq))) (split_lines (join_lines (logsC groq @ ms)))"
  by (rule lines_prefix) (rule logs_nonempty)

lemma prefix_A_B': "prefix (split_lines (join_lines logsA)) (split_lines (join_lines (logsB groq)))"
  using prefix_A_B [of groq "[]"] by simp

lemma prefix_B_C': "prefix (split_lines (join_lines (logsB groq))) (split_lines (join_lines (logsC groq)))"
  using prefix_B_C [of groq "[]"] by simp

lemmas prefix_simps = prefix_A_B prefix_B_C prefix_C_F prefix_A_B' prefix_B_C'

lemma last_line_complete: "last (split_lines (join_lines (logsC groq))) = ''Deployment complete!''"
proof -
  have "logsC groq = (logsB groq @ [''Optimizing dependencies...'', ''Building application...'',
     ''Running tests...'', ''Deploying to CDN...'', ''Configuring subdomain...'']) @ [''Deployment complete!'']"
    by (simp add: logsC_def)
  moreover have "newline \<notin> set ''Deployment complete!''"
    by (simp add: newline_def)
  ultimately show ?thesis
    by (simp only: last_line_snoc [OF _ \<open>newline \<notin> set ''Deployment complete!''\<close>] append_is_Nil_conv logs_nonempty simp_thms)
qed

lemma row_fields:
  "dep_status (rowA x) = dep_status x" "buildLogs (rowA x) = Some (join_lines logsA)"
  "deployedAt (rowA x) = deployedAt x"
  "dep_status (rowB groq x) = dep_status x" "buildLogs (rowB groq x) = Some (join_lines (logsB groq))"
  "deployedAt (rowB groq x) = deployedAt x" "groqAnalysis (rowB groq x) = Some (fst (analyze groq))"
  "dep_status (rowC groq t x) = ''success''" "buildLogs (rowC groq t x) = Some (join_lines (logsC groq))"
  "deployedAt (rowC groq t x) = Some t" "groqAnalysis (rowC groq t x) = Some (fst (analyze groq))"
  "dep_status (rowF logs e x) = ''failed''"
  "buildLogs (rowF logs e x) = Some (join_lines (logs @ [failure_line e]))"
  "deployedAt (rowF logs e x) = deployedAt x" "groqAnalysis (rowF logs e x) = groqAnalysis x"
  by (simp_all add: rowA_def rowB_def rowC_def rowF_def)

lemma observed_eq:
  "observed_rows i w' = observed_rows i w @ news \<Longrightarrow> observed i w w' = map log_lines (getDeployment (store w) i # news)"
  by (simp add: observed_def observed_rows_def)

lemma failure_line_newline: "newline \<notin> set e \<Longrightarrow> newline \<notin> set (failure_line e)"
  by (simp add: failure_line_def newline_def)

lemma failed_logs:
  "logs \<noteq> [] \<Longrightarrow> join_lines (logs @ [failure_line e]) = join_lines logs @ newline # failure_line e"
  by (simp add: join_lines_append join_lines.simps)

lemma failed_last_line:
  "newline \<notin> set e \<Longrightarrow> last (split_lines (pre @ newline # failure_line e)) = failure_line e"
  by (simp add: split_lines_append split_lines_single failure_line_newline)

lemma monotone_logs_butlast: "monotone_logs (xs @ [y]) \<Longrightarrow> monotone_logs xs"
  by (induction xs rule: monotone_logs.induct) auto

lemma monotone_logs_repeat: "monotone_logs (xs @ [y]) \<Longrightarrow> monotone_logs (xs @ [y, y])"
  by (induction xs rule: monotone_logs.induct) auto


lemma processDeployment_throw:
  "deployment_try i app groq w = (Inl (e, logs), wt) \<Longrightarrow>
   processDeployment i app groq w = deployment_catch i app logs e wt"
  by (simp add: processDeployment_def)

lemma processDeployment_done:
  "deployment_try i app groq w = (Inr u, wt) \<Longrightarrow> processDeployment i app groq w = (Inr (), wt)"
  by (simp add: processDeployment_def)

lemmas lifecycle_simps = observed_eq row_fields log_lines_def prefix_simps last_line_complete
  logs_nonempty

lemmas demo_simps = demo_world_def demo_db_def demo_app_def demo_deployment_def demo_user_def
  demo_premium_user_def

lemmas run_simps = processDeployment_def deployment_try_def deployment_catch_def await_write_def
  await_read_def next_fault_def sleep_def Let_def getDeployment_updateDeployment
  getDeployment_updateApplication getApplication_updateDeployment getApplication_updateApplication
  set_deployment_def set_application_def

lemma demo_rows:
  "getDeployment (store (demo_world fs)) 7 = Some demo_deployment"
  "getApplication (store (demo_world fs)) 3 = Some demo_app"
  "app_id demo_app = 3" "clock (demo_world fs) = 10" "faults (demo_world fs) = fs"
  "history (demo_world fs) = []"
  by (simp_all add: demo_simps getDeployment_def getApplication_def first_row_def)

lemma no_fault_next:
  assumes "no_fault n fs" and "k < n"
  shows "next_fault (drop k fs) = None"
proof (cases "k < length fs")
  case True
  then have "drop k fs = fs ! k # drop (Suc k) fs"
    by (simp add: Cons_nth_drop_Suc)
  moreover have "fs ! k \<in> set (take n fs)"
    using True assms(2) by (metis in_set_conv_nth length_take min_less_iff_conj nth_take)
  ultimately show ?thesis
    using assms(1) by (simp add: no_fault_def next_fault_def)
next
  case False
  then show ?thesis by (simp add: next_fault_def)
qed

lemma no_fault_4:
  assumes "no_fault 4 fs"
  shows "next_fault fs = None" "next_fault (drop 1 fs) = None"
    "next_fault (drop 1 (drop 1 fs)) = None" "next_fault (drop 1 (drop 1 (drop 1 fs))) = None"
  using no_fault_next [OF assms, of 0] no_fault_next [OF assms, of 1]
    no_fault_next [OF assms, of 2] no_fault_next [OF assms, of 3]
  by (simp_all add: numeral_2_eq_2 numeral_3_eq_3)

lemma try_done_statuses:
  assumes "getDeployment (store w) i = Some d0"
      and "getApplication (store w) (app_id app) = Some a0"
      and "next_fault (faults w) = None" and "next_fault (drop 1 (faults w)) = None"
      and "next_fault (drop 1 (drop 1 (faults w))) = None"
      and "next_fault (drop 1 (drop 1 (drop 1 (faults w)))) = None"
  shows "clock (snd (deployment_try i app groq w)) = clock w + 6000 \<and>
         observed_statuses i (app_id app) w (snd (deployment_try i app groq w)) =
           [(Some (dep_status d0), Some (app_status a0)), (Some (dep_status d0), Some (app_status a0)),
            (Some ''success'', Some (app_status a0)), (Some ''success'', Some ''live'')]"
  using assms by (simp add: try_simps observed_statuses_def set_application_def ac_simps)

lemma set_application_live:
  "app_status (set_application (live_updates app t) t' a) = ''live''"
  "lastDeployedAt (set_application (live_updates app t) t' a) = Some t"
  "deploymentUrl (set_application (live_updates app t) t' a) =
     Some (''https://'' @ subdomain app @ ''.seskrow.com'')"
  by (simp_all add: set_application_def live_updates_def)

lemma analyze_upstream_error:
  "upstream_error groq \<Longrightarrow>
   analyze groq = ([], ''GroqAI analysis skipped - using default configuration'')"
  by (cases groq) (auto simp: upstream_error_def analyze_def split: groq_body.splits)

lemma analyze_empty_response:
  "empty_response groq \<Longrightarrow>
   analyze groq = (''Analysis completed'', ''GroqAI analysis completed successfully'')"
  by (cases groq)
     (auto simp: empty_response_def analyze_def or_default_def split: groq_body.splits if_splits)

lemma analyze_answered:
  "response_ok code \<Longrightarrow> text \<noteq> [] \<Longrightarrow>
   analyze (HttpResponse code (BodyChoices (Some text # cs))) =
     (text, ''GroqAI analysis completed successfully'')"
  by (simp add: analyze_def or_default_def first_content_def)

lemma outcome_cases:
  "upstream_error groq \<or> empty_response groq \<or>
   (\<exists>code text cs. response_ok code \<and> text \<noteq> [] \<and>
      groq = HttpResponse code (BodyChoices (Some text # cs)))"
proof (cases groq)
  case (NetworkError e)
  then show ?thesis by (simp add: upstream_error_def)
next
  case (HttpResponse code body)
  show ?thesis
  proof (cases body)
    case (BodyChoices choices)
    show ?thesis
    proof (cases choices)
      case Nil
      with HttpResponse BodyChoices show ?thesis
        by (simp add: upstream_error_def empty_response_def first_content_def)
    next
      case (Cons c cs)
      with HttpResponse BodyChoices show ?thesis
        by (cases c) (auto simp: upstream_error_def empty_response_def first_content_def)
    qed
  qed (simp_all add: HttpResponse upstream_error_def)
qed

lemma success_seen_eq:
  "observed_rows i w' = observed_rows i w @ news \<Longrightarrow>
   success_seen i w w' = (Some ''success'' \<in> set (map (map_option dep_status) news))"
  by (simp add: success_seen_def observed_rows_def)

lemma deployment_catch_frame:
  "map_option deployedAt (getDeployment (store (snd (deployment_catch i app logs e w))) j) =
   map_option deployedAt (getDeployment (store w) j)"
proof (cases "next_fault (faults w)")
  case (Some e')
  then show ?thesis by (simp add: catch_simps)
next
  case f1: None
  show ?thesis
  proof (cases "next_fault (drop 1 (faults w))")
    case (Some e')
    then show ?thesis
      using f1 by (simp add: catch_simps option.map_comp comp_def)
  next
    case None
    then show ?thesis
      using f1 by (simp add: catch_simps option.map_comp comp_def)
  qed
qed

subsection \<open>Request handlers\<close>

lemma await_read_ok:
  "next_fault (faults w) = None \<Longrightarrow>
   await_read q w = (Inr (q (store w)), w\<lparr> faults := drop 1 (faults w) \<rparr>)"
  by (simp add: await_read_def)

lemma await_read_throw:
  "next_fault (faults w) = Some msg \<Longrightarrow> await_read q w = (Inl msg, w\<lparr> faults := drop 1 (faults w) \<rparr>)"
  by (simp add: await_read_def)

lemmas route_defs = get_application_route_def delete_application_route_def
  get_deployments_route_def post_deploy_route_def get_analytics_route_def



lemma length_getUserApplications:
  "length (getUserApplications d uid) = length (filter (\<lambda>a. userId a = uid) (applications d))"
  by (simp add: getUserApplications_def order_desc_def)

lemma owns_one:
  "(1 \<le> length (getUserApplications d uid)) = (\<exists>a \<in> set (applications d). userId a = uid)"
  by (simp add: length_getUserApplications Suc_le_eq filter_empty_conv)


lemma demo_users:
  "getUser (store (demo_world fs)) ''u1'' = Some demo_user"
  "getUser (store (demo_world fs)) ''u2'' = Some demo_premium_user"
  "applications (store (demo_world fs)) = [demo_app]"
  "userId demo_app = ''u1''" "subdomain demo_app = ''demo-1''"
  "isPremium demo_user = Some False" "isPremium demo_premium_user = Some True"
  by (simp_all add: demo_simps getUser_def first_row_def)



lemma or_default_nonempty: "fallback \<noteq> [] \<Longrightarrow> or_default v fallback \<noteq> []"
  by (simp add: or_default_def split: option.splits)

lemma fallbacks_nonempty:
  "chat_fallback \<noteq> []" "chat_empty_fallback \<noteq> []" "public_chat_empty_fallback \<noteq> []"
  "public_chat_not_ok \<noteq> []" "public_chat_unavailable \<noteq> []"
  by (simp_all add: chat_fallback_def chat_empty_fallback_def public_chat_empty_fallback_def
        public_chat_not_ok_def public_chat_unavailable_def)

lemma chat_reply_nonempty: "chat_reply groq \<noteq> []"
  by (simp add: chat_reply_def or_default_nonempty fallbacks_nonempty
        split: fetch_outcome.splits groq_body.splits)

lemma public_chat_reply_nonempty: "public_chat_reply groq \<noteq> []"
  by (simp add: public_chat_reply_def or_default_nonempty fallbacks_nonempty
        split: fetch_outcome.splits groq_body.splits)

lemma chat_reply_upstream_error:
  "upstream_error groq \<Longrightarrow> chat_reply groq = chat_fallback"
  "upstream_error groq \<Longrightarrow>
     public_chat_reply groq = public_chat_not_ok \<or> public_chat_reply groq = public_chat_unavailable"
  by (auto simp: upstream_error_def chat_reply_def public_chat_reply_def
        split: fetch_outcome.splits groq_body.splits)

lemma chat_reply_empty_response:
  "empty_response groq \<Longrightarrow> chat_reply groq = chat_empty_fallback"
  "empty_response groq \<Longrightarrow> public_chat_reply groq = public_chat_empty_fallback"
  by (auto simp: empty_response_def chat_reply_def public_chat_reply_def or_default_def
        split: fetch_outcome.splits groq_body.splits)

lemma chat_reply_answered:
  "response_ok code \<Longrightarrow> text \<noteq> [] \<Longrightarrow>
     chat_reply (HttpResponse code (BodyChoices (Some text # cs))) = text"
  "response_ok code \<Longrightarrow> text \<noteq> [] \<Longrightarrow>
     public_chat_reply (HttpResponse code (BodyChoices (Some text # cs))) = text"
  by (simp_all add: chat_reply_def public_chat_reply_def first_content_def or_default_def)

text \<open>
  The deploy handler hands the pipeline a row with status \<open>building\<close> and no logs, analysis
  or deployment date, for the application it loaded.
\<close>

lemma post_deploy_route_created:
  assumes "post_deploy_route sub applicationId w = (((201, JsonDeployment dep), task), w')"
  shows "\<exists>application. getApplication (store w) applicationId = Some application \<and>
           userId application = sub \<and> task = Some (dep_id dep, application) \<and>
           dep_applicationId dep = applicationId \<and> dep_status dep = ''building'' \<and>
           buildLogs dep = None \<and> groqAnalysis dep = None \<and> deployedAt dep = None \<and>
           deployments (store w') = deployments (store w) @ [dep]"
proof (cases "next_fault (faults w)")
  case (Some e)
  then show ?thesis
    using assms by (simp add: post_deploy_route_def await_read_throw)
next
  case f1: None
  show ?thesis
  proof (cases "getApplication (store w) applicationId")
    case None
    then show ?thesis
      using assms f1 by (simp add: post_deploy_route_def await_read_ok)
  next
    case found: (Some application)
    show ?thesis
    proof (cases "next_fault (drop 1 (faults w))")
      case (Some e)
      then show ?thesis
        using assms f1 found
        by (simp add: post_deploy_route_def await_read_ok await_write_throw split: if_splits)
    next
      case None
      then show ?thesis
        using assms f1 found
        by (auto simp: post_deploy_route_def await_read_ok await_write_ok createDeployment_def
              Let_def split: if_splits)
    qed
  qed
qed

text \<open>The number of days never reaches the result of the analytics query.\<close>

lemma getApplicationAnalytics_ignores_days:
  "getApplicationAnalytics d applicationId days now = getApplicationAnalytics d applicationId days' now'"
  by (simp add: getApplicationAnalytics_def)

text \<open>A tracked visit is recorded only for an application whose owner is the empty string.\<close>

lemma first_row_Some: "first_row xs = Some x \<Longrightarrow> x \<in> set xs"
  by (cases xs) (simp_all add: first_row_def)

lemma post_track_route_found:
  assumes "fst (fst (post_track_route sd req w)) = 200"
  shows "\<exists>a \<in> set (applications (store w)). userId a = [] \<and> subdomain a = sd"
proof (cases "next_fault (faults w)")
  case (Some e)
  then show ?thesis
    using assms by (simp add: post_track_route_def await_read_throw)
next
  case f1: None
  show ?thesis
  proof (cases "find_first (\<lambda>app. subdomain app = sd) (getUserApplications (store w) [])")
    case None
    then show ?thesis
      using assms f1 by (simp add: post_track_route_def await_read_ok)
  next
    case (Some a)
    then have "a \<in> set (filter (\<lambda>app. subdomain app = sd) (getUserApplications (store w) []))"
      unfolding find_first_def by (rule first_row_Some)
    then show ?thesis
      by (auto simp: getUserApplications_def order_desc_def)
  qed
qed

subsection \<open>The outcome of a run, by the schedule of the driver\<close>

lemma try_rest:
  "next_fault (faults w) = Some e \<Longrightarrow>
     faults (snd (deployment_try i app groq w)) = drop 1 (faults w)"
  "next_fault (faults w) = None \<Longrightarrow> next_fault (drop 1 (faults w)) = Some e \<Longrightarrow>
     faults (snd (deployment_try i app groq w)) = drop 1 (drop 1 (faults w))"
  "next_fault (faults w) = None \<Longrightarrow> next_fault (drop 1 (faults w)) = None \<Longrightarrow>
   next_fault (drop 1 (drop 1 (faults w))) = Some e \<Longrightarrow>
     faults (snd (deployment_try i app groq w)) = drop 1 (drop 1 (drop 1 (faults w)))"
  "next_fault (faults w) = None \<Longrightarrow> next_fault (drop 1 (faults w)) = None \<Longrightarrow>
   next_fault (drop 1 (drop 1 (faults w))) = None \<Longrightarrow>
   next_fault (drop 1 (drop 1 (drop 1 (faults w)))) = Some e \<Longrightarrow>
     faults (snd (deployment_try i app groq w)) = drop 1 (drop 1 (drop 1 (drop 1 (faults w))))"
  by (simp_all add: deployment_try_def await_write_throw await_write_ok Let_def sleep_def)

lemma catch_throw:
  assumes "next_fault (faults w) = Some e'"
  shows "fst (deployment_catch i app logs e w) = Inl e' \<and>
         store (snd (deployment_catch i app logs e w)) = store w"
  using assms by (simp add: catch_simps)

lemma catch_ok:
  assumes "getDeployment (store w) i = Some d" and "next_fault (faults w) = None"
  shows "getDeployment (store (snd (deployment_catch i app logs e w))) i = Some (rowF logs e d) \<and>
         (fst (deployment_catch i app logs e w) = Inr ()) = (next_fault (drop 1 (faults w)) = None)"
proof (cases "next_fault (drop 1 (faults w))")
  case None
  then show ?thesis using assms by (simp add: catch_simps)
next
  case (Some e')
  then show ?thesis using assms by (simp add: catch_simps)
qed

text \<open>What the \<open>catch\<close> block makes of a throw of the \<open>try\<close> block, by the next entries.\<close>

lemma after_throw:
  assumes T: "fst (deployment_try i app groq w) = Inl (e, logs)"
      and rest: "faults (snd (deployment_try i app groq w)) = rest"
      and row: "getDeployment (store (snd (deployment_try i app groq w))) i = Some d1"
      and logs: "logs \<noteq> []"
  shows "(next_fault rest = None \<longrightarrow>
            map_option dep_status (getDeployment (store (snd (processDeployment i app groq w))) i) =
              Some ''failed'' \<and>
            map_option buildLogs (getDeployment (store (snd (processDeployment i app groq w))) i) =
              Some (Some (join_lines logs @ newline # failure_line e)) \<and>
            (fst (processDeployment i app groq w) = Inr ()) = (next_fault (drop 1 rest) = None)) \<and>
         (\<forall>e'. next_fault rest = Some e' \<longrightarrow>
            fst (processDeployment i app groq w) = Inl e' \<and>
            getDeployment (store (snd (processDeployment i app groq w))) i = Some d1)"
proof -
  let ?wt = "snd (deployment_try i app groq w)"
  have "deployment_try i app groq w = (Inl (e, logs), ?wt)"
    using T by (metis prod.collapse)
  then have P: "processDeployment i app groq w = deployment_catch i app logs e ?wt"
    by (rule processDeployment_throw)
  show ?thesis
  proof (cases "next_fault rest")
    case None
    then show ?thesis
      using catch_ok [OF row, of app logs e] rest failed_logs [OF logs, of e]
      by (simp add: P row_fields)
  next
    case (Some e')
    then show ?thesis
      using catch_throw [of ?wt e' i app logs e] rest row by (simp add: P)
  qed
qed

lemma lifecycle_status:
  assumes row0: "getDeployment (store w) i = Some d0"
      and k: "k < 4" and sched: "faults w = replicate k None @ Some e # rest"
  shows "(next_fault rest = None \<longrightarrow>
            map_option dep_status (getDeployment (store (snd (processDeployment i app groq w))) i) =
              Some ''failed'' \<and>
            (\<exists>pre. map_option buildLogs (getDeployment (store (snd (processDeployment i app groq w))) i) =
              Some (Some (pre @ newline # failure_line e))) \<and>
            (fst (processDeployment i app groq w) = Inr ()) = (next_fault (drop 1 rest) = None)) \<and>
         (\<forall>e'. next_fault rest = Some e' \<longrightarrow>
            fst (processDeployment i app groq w) = Inl e' \<and>
            map_option dep_status (getDeployment (store (snd (processDeployment i app groq w))) i) =
              Some (if k = 3 then ''success'' else dep_status d0))"
proof -
  from k consider "k = 0" | "k = 1" | "k = 2" | "k = 3"
    by arith
  then show ?thesis
  proof cases
    case 1
    with sched have f: "next_fault (faults w) = Some e" and r: "drop 1 (faults w) = rest"
      by (simp_all add: next_fault_def)
    have row: "getDeployment (store (snd (deployment_try i app groq w))) i = Some d0"
      using try_throw1 [OF f, of i app groq] row0 by simp
    from after_throw [OF _ _ row logs_nonempty(1), of e rest] try_throw1 [OF f, of i app groq]
      try_rest(1) [OF f, of i app groq] r 1
    show ?thesis
      by auto
  next
    case 2
    with sched have f: "next_fault (faults w) = None" "next_fault (drop 1 (faults w)) = Some e"
      and r: "drop 1 (drop 1 (faults w)) = rest"
      by (simp_all add: next_fault_def)
    note t = try_throw2 [OF row0 f, of app groq]
    from after_throw [OF _ _ _ logs_nonempty(2), of i app groq w e groq rest "rowA d0"] t
      try_rest(2) [OF f, of i app groq] r 2
    show ?thesis
      by (auto simp: row_fields)
  next
    case 3
    with sched have f: "next_fault (faults w) = None" "next_fault (drop 1 (faults w)) = None"
        "next_fault (drop 1 (drop 1 (faults w))) = Some e"
      and r: "drop 1 (drop 1 (drop 1 (faults w))) = rest"
      by (simp_all add: next_fault_def numeral_2_eq_2)
    note t = try_throw3 [OF row0 f, of app groq]
    from after_throw [OF _ _ _ logs_nonempty(3), of i app groq w e groq rest "rowB groq d0"] t
      try_rest(3) [OF f, of i app groq] r 3
    show ?thesis
      by (auto simp: row_fields)
  next
    case 4
    with sched have f: "next_fault (faults w) = None" "next_fault (drop 1 (faults w)) = None"
        "next_fault (drop 1 (drop 1 (faults w))) = None"
        "next_fault (drop 1 (drop 1 (drop 1 (faults w)))) = Some e"
      and r: "drop 1 (drop 1 (drop 1 (drop 1 (faults w)))) = rest"
      by (simp_all add: next_fault_def numeral_3_eq_3)
    note t = try_throw4 [OF row0 f, of app groq]
    from after_throw [OF _ _ _ logs_nonempty(3), of i app groq w e groq rest
        "rowC groq (clock w + 6000) d0"] t
      try_rest(4) [OF f, of i app groq] r 4
    show ?thesis
      by (auto simp: row_fields)
  qed
qed


lemma schedule_cases:
  "no_fault n fs \<or> (\<exists>k e rest. k < n \<and> fs = replicate k None @ Some e # rest)"
proof (induction fs arbitrary: n)
  case Nil
  then show ?case by (simp add: no_fault_def)
next
  case (Cons f fs)
  show ?case
  proof (cases n)
    case 0
    then show ?thesis by (simp add: no_fault_def)
  next
    case (Suc m)
    show ?thesis
    proof (cases f)
      case (Some e)
      have "f # fs = replicate 0 None @ Some e # fs"
        using Some by simp
      then show ?thesis
        using Suc by blast
    next
      case None
      from Cons.IH [of m] show ?thesis
      proof (elim disjE exE conjE)
        assume "no_fault m fs"
        then show ?thesis using None Suc by (simp add: no_fault_def)
      next
        fix k e rest
        assume "k < m" "fs = replicate k None @ Some e # rest"
        then have "Suc k < n \<and> f # fs = replicate (Suc k) None @ Some e # rest"
          using None Suc by simp
        then show ?thesis by blast
      qed
    qed
  qed
qed

lemma run_without_fault:
  assumes ok: "no_fault 4 (faults w)" and row0: "getDeployment (store w) i = Some d0"
  shows "processDeployment i app groq w = (Inr (), snd (deployment_try i app groq w))"
    and "getDeployment (store (snd (deployment_try i app groq w))) i =
           Some (rowC groq (clock w + 6000) d0)"
proof -
  note fin = try_done [OF row0 no_fault_4 [OF ok], of app groq]
  have "deployment_try i app groq w = (Inr (), snd (deployment_try i app groq w))"
    using fin by (metis prod.collapse)
  then show "processDeployment i app groq w = (Inr (), snd (deployment_try i app groq w))"
    by (rule processDeployment_done)
  show "getDeployment (store (snd (deployment_try i app groq w))) i =
           Some (rowC groq (clock w + 6000) d0)"
    using fin by simp
qed

lemma lifecycle_logs:
  assumes row0: "getDeployment (store w) i = Some d0"
      and building: "dep_status d0 = ''building''"
      and nologs: "buildLogs d0 = None"
      and run: "processDeployment i app groq w = (r, w')"
  shows "\<exists>d. getDeployment (store w') i = Some d \<and>
           (dep_status d = ''success'' \<or> dep_status d = ''failed'' \<or> dep_status d = ''building'') \<and>
           (r = Inr () \<longrightarrow> dep_status d \<noteq> ''building'') \<and>
           (dep_status d = ''success'' \<longrightarrow>
              (\<exists>t. buildLogs d = Some t \<and> last (split_lines t) = ''Deployment complete!'')) \<and>
           (dep_status d = ''failed'' \<longrightarrow>
              (\<exists>pre msg. Some msg \<in> set (faults w) \<and>
                 buildLogs d = Some (pre @ newline # failure_line msg) \<and>
                 (newline \<notin> set msg \<longrightarrow>
                    last (split_lines (pre @ newline # failure_line msg)) = failure_line msg))) \<and>
           monotone_logs (observed i w w')"
proof -
  obtain rt wt where T: "deployment_try i app groq w = (rt, wt)"
    by (cases "deployment_try i app groq w")
  have catch: ?thesis
    if rt: "rt = Inl (e, logs)" and e: "Some e \<in> set (faults w)" and logs: "logs \<noteq> []"
      and rowt: "getDeployment (store wt) i = Some d1"
      and rowst: "observed_rows i wt = observed_rows i w @ news"
      and mono: "monotone_logs (map log_lines (Some d0 # news @ [Some (rowF logs e d1)]))"
      and d1: "dep_status d1 = ''building'' \<or>
               dep_status d1 = ''success'' \<and> buildLogs d1 = Some (join_lines (logsC groq))"
    for e logs d1 news
  proof -
    have C: "deployment_catch i app logs e wt = (r, w')"
      using run T rt by (simp add: processDeployment_throw)
    have F: "\<exists>pre msg. Some msg \<in> set (faults w) \<and>
                 buildLogs (rowF logs e d1) = Some (pre @ newline # failure_line msg) \<and>
                 (newline \<notin> set msg \<longrightarrow>
                    last (split_lines (pre @ newline # failure_line msg)) = failure_line msg)"
    proof -
      have 1: "buildLogs (rowF logs e d1) = Some (join_lines logs @ newline # failure_line e)"
        using failed_logs [OF logs, of e] by (simp add: row_fields)
      have 2: "newline \<notin> set e \<longrightarrow>
                 last (split_lines (join_lines logs @ newline # failure_line e)) = failure_line e"
        by (simp add: failed_last_line)
      from e 1 2 show ?thesis by blast
    qed
    have M1: "monotone_logs (map log_lines (Some d0 # news))"
      using monotone_logs_butlast [of "map log_lines (Some d0 # news)"] mono by simp
    have M2: "monotone_logs (map log_lines (Some d0 # news @ [Some (rowF logs e d1), Some (rowF logs e d1)]))"
      using monotone_logs_repeat [of "map log_lines (Some d0 # news)"] mono by simp
    from deployment_catch_outcomes [OF rowt C] show ?thesis
    proof (elim disjE conjE)
      assume "r \<noteq> Inr ()" "getDeployment (store w') i = Some d1" "observed_rows i w' = observed_rows i wt"
      then show ?thesis
        using d1 M1 row0 rowst by (auto simp: lifecycle_simps)
    next
      assume "r \<noteq> Inr ()" "getDeployment (store w') i = Some (rowF logs e d1)"
        "observed_rows i w' = observed_rows i wt @ [Some (rowF logs e d1)]"
      then show ?thesis
        using F mono row0 rowst by (simp add: observed_eq row_fields)
    next
      assume "r = Inr ()" "getDeployment (store w') i = Some (rowF logs e d1)"
        "observed_rows i w' = observed_rows i wt @ [Some (rowF logs e d1), Some (rowF logs e d1)]"
      then show ?thesis
        using F M2 row0 rowst by (simp add: observed_eq row_fields)
    qed
  qed
  from deployment_try_outcomes [OF row0 T] show ?thesis
  proof (elim disjE exE conjE)
    fix e
    assume "Some e \<in> set (faults w)" "rt = Inl (e, logsA)"
      "getDeployment (store wt) i = Some d0" "observed_rows i wt = observed_rows i w"
    then show ?thesis
      using building nologs
      by (intro catch [of e logsA d0 "[]"]) (simp_all add: lifecycle_simps)
  next
    fix e
    assume "Some e \<in> set (faults w)" "rt = Inl (e, logsB groq)"
      "getDeployment (store wt) i = Some (rowA d0)" "observed_rows i wt = observed_rows i w @ [Some (rowA d0)]"
    then show ?thesis
      using building nologs
      by (intro catch [of e "logsB groq" "rowA d0" "[Some (rowA d0)]"])
        (simp_all add: lifecycle_simps)
  next
    fix e
    assume "Some e \<in> set (faults w)" "rt = Inl (e, logsC groq)"
      "getDeployment (store wt) i = Some (rowB groq d0)"
      "observed_rows i wt = observed_rows i w @ [Some (rowA d0), Some (rowB groq d0)]"
    then show ?thesis
      using building nologs
      by (intro catch [of e "logsC groq" "rowB groq d0" "[Some (rowA d0), Some (rowB groq d0)]"])
        (simp_all add: lifecycle_simps)
  next
    fix e
    assume "Some e \<in> set (faults w)" "rt = Inl (e, logsC groq)"
      "getDeployment (store wt) i = Some (rowC groq (clock w + 6000) d0)"
      "observed_rows i wt = observed_rows i w @ [Some (rowA d0), Some (rowB groq d0),
                                Some (rowC groq (clock w + 6000) d0)]"
    then show ?thesis
      using building nologs
      by (intro catch [of e "logsC groq" "rowC groq (clock w + 6000) d0"
              "[Some (rowA d0), Some (rowB groq d0), Some (rowC groq (clock w + 6000) d0)]"])
        (simp_all add: lifecycle_simps)
  next
    assume "rt = Inr ()" "getDeployment (store wt) i = Some (rowC groq (clock w + 6000) d0)"
      "observed_rows i wt = observed_rows i w @ [Some (rowA d0), Some (rowB groq d0),
                                Some (rowC groq (clock w + 6000) d0),
                                Some (rowC groq (clock w + 6000) d0)]"
    then show ?thesis
      using run T row0 nologs by (simp add: processDeployment_done lifecycle_simps)
  qed
qed

lemma two_line_failure:
  assumes "newline \<notin> set q"
  shows "last (split_lines (pre @ newline # failure_line (p @ newline # q))) = q"
proof -
  have "pre @ newline # failure_line (p @ newline # q) =
          (pre @ newline # failure_line p) @ newline # q"
    by (simp add: failure_line_def)
  then show ?thesis
    using assms by (simp add: split_lines_append split_lines_single)
qed

lemma deployment_catch_table:
  "deployments (store (snd (deployment_catch i app logs e w))) =
     (if next_fault (faults w) = None
      then map (mark_failed i (join_lines (logs @ [failure_line e]))) (deployments (store w))
      else deployments (store w))"
proof (cases "next_fault (faults w)")
  case (Some e')
  then show ?thesis by (simp add: deployment_catch_def await_write_throw Let_def)
next
  case f1: None
  have m: "(\<lambda>x. if dep_id x = i
              then set_deployment \<lparr> du_status = Some ''failed'', du_deployedAt = None,
                     du_buildLogs = Some t, du_groqAnalysis = None \<rparr> x
              else x) = mark_failed i t" for t
    by (rule ext) (simp add: mark_failed_def set_deployment_def)
  show ?thesis
  proof (cases "next_fault (drop 1 (faults w))")
    case (Some e')
    then show ?thesis
      using f1
      by (simp add: deployment_catch_def await_write_throw await_write_ok Let_def
            updateDeployment_def m)
  next
    case None
    then show ?thesis
      using f1
      by (simp add: deployment_catch_def await_write_throw await_write_ok Let_def
            updateDeployment_def updateApplication_def m)
  qed
qed

subsection \<open>The lines of a complete log\<close>

lemma split_join:
  "ls \<noteq> [] \<Longrightarrow> \<forall>l \<in> set ls. newline \<notin> set l \<Longrightarrow> split_lines (join_lines ls) = ls"
proof (induction ls rule: join_lines.induct)
  case 1
  then show ?case by simp
next
  case (2 l)
  then show ?case by (simp add: join_lines.simps split_lines_single)
next
  case (3 l v va)
  then show ?case
    by (simp add: join_lines.simps split_lines_append split_lines_single)
qed

lemma complete_log_eq:
  "join_lines (logsC groq) = complete_log (snd (analyze groq))"
  by (simp add: logsC_def logsB_def logsA_def complete_log_def)

lemma complete_log_lines:
  "newline \<notin> set l \<Longrightarrow> split_lines (complete_log l) ! 2 = l"
  unfolding complete_log_def
  by (subst split_join) (simp_all add: newline_def)

section \<open>The claims\<close>

text \<open>
  Claim C1, as the code has it. Take a deployment row as the deploy handler creates it
  (status \<open>building\<close>, no logs) and any run of \<open>processDeployment\<close> on it, whatever the
  analysis service answers and whichever storage calls throw. The status at the end follows
  from the schedule of the driver:
  \<^item> when none of the four storage calls of the \<open>try\<close> block throws, the task resolves and
    the status is \<open>success\<close>;
  \<^item> when call \<open>k\<close> of the four is the first to throw, with error \<open>e\<close>, and the deployment
    write of the \<open>catch\<close> block goes through, the status is \<open>failed\<close> and the log text ends
    with a line break followed by \<open>Deployment failed: \<close> and the message of \<open>e\<close>; the task
    resolves exactly when the application write of the \<open>catch\<close> block goes through too;
  \<^item> when the deployment write of the \<open>catch\<close> block throws as well, the task rejects with
    that error and the row stays as it was: \<open>building\<close>, or \<open>success\<close> if it was the
    application write after the success write that threw.

  Every schedule is of one of these kinds. A row that ends \<open>success\<close>
  has a log text whose last line is \<open>Deployment complete!\<close>; in a row that ends \<open>failed\<close>
  the appended text is the last line when the message has no line break. Every observation
  of the log text during the run keeps all lines of the previous observation, in order.
\<close>

theorem processDeployment_lifecycle:
  assumes row0: "getDeployment (store w) i = Some d0"
      and building: "dep_status d0 = ''building''"
      and nologs: "buildLogs d0 = None"
      and run: "processDeployment i app groq w = (r, w')"
  shows "\<exists>d. getDeployment (store w') i = Some d \<and>
           (dep_status d = ''success'' \<or> dep_status d = ''failed'' \<or> dep_status d = ''building'') \<and>
           (r = Inr () \<longrightarrow> dep_status d \<noteq> ''building'') \<and>
           (no_fault 4 (faults w) \<longrightarrow> r = Inr () \<and> dep_status d = ''success'') \<and>
           (\<forall>k e rest. k < 4 \<and> faults w = replicate k None @ Some e # rest \<longrightarrow>
              (next_fault rest = None \<longrightarrow>
                 dep_status d = ''failed'' \<and>
                 (\<exists>pre. buildLogs d = Some (pre @ newline # failure_line e)) \<and>
                 (r = Inr ()) = (next_fault (drop 1 rest) = None)) \<and>
              (\<forall>e'. next_fault rest = Some e' \<longrightarrow>
                 r = Inl e' \<and> dep_status d = (if k = 3 then ''success'' else ''building''))) \<and>
           (dep_status d = ''success'' \<longrightarrow>
              (\<exists>t. buildLogs d = Some t \<and> last (split_lines t) = ''Deployment complete!'')) \<and>
           (dep_status d = ''failed'' \<longrightarrow>
              (\<exists>pre msg. Some msg \<in> set (faults w) \<and>
                 buildLogs d = Some (pre @ newline # failure_line msg) \<and>
                 (newline \<notin> set msg \<longrightarrow>
                    last (split_lines (pre @ newline # failure_line msg)) = failure_line msg))) \<and>
           monotone_logs (observed i w w') \<and>
           (no_fault 4 (faults w) \<or>
            (\<exists>k e rest. k < 4 \<and> faults w = replicate k None @ Some e # rest))"
proof -
  have r: "r = fst (processDeployment i app groq w)"
    and w': "w' = snd (processDeployment i app groq w)"
    using run by simp_all
  from lifecycle_logs [OF row0 building nologs run]
  obtain d where d: "getDeployment (store w') i = Some d"
    and old: "dep_status d = ''success'' \<or> dep_status d = ''failed'' \<or> dep_status d = ''building''"
      "r = Inr () \<longrightarrow> dep_status d \<noteq> ''building''"
      "dep_status d = ''success'' \<longrightarrow>
              (\<exists>t. buildLogs d = Some t \<and> last (split_lines t) = ''Deployment complete!'')"
      "dep_status d = ''failed'' \<longrightarrow>
              (\<exists>pre msg. Some msg \<in> set (faults w) \<and>
                 buildLogs d = Some (pre @ newline # failure_line msg) \<and>
                 (newline \<notin> set msg \<longrightarrow>
                    last (split_lines (pre @ newline # failure_line msg)) = failure_line msg))"
      "monotone_logs (observed i w w')"
    by (elim exE conjE)
  have ok: "no_fault 4 (faults w) \<longrightarrow> r = Inr () \<and> dep_status d = ''success''"
  proof
    assume nf: "no_fault 4 (faults w)"
    from run_without_fault [OF nf row0, of app groq] d
    have "r = Inr ()" and "d = rowC groq (clock w + 6000) d0"
      by (simp_all add: r w')
    then show "r = Inr () \<and> dep_status d = ''success''"
      by (simp add: row_fields)
  qed
  have thrown: "\<forall>k e rest. k < 4 \<and> faults w = replicate k None @ Some e # rest \<longrightarrow>
              (next_fault rest = None \<longrightarrow>
                 dep_status d = ''failed'' \<and>
                 (\<exists>pre. buildLogs d = Some (pre @ newline # failure_line e)) \<and>
                 (r = Inr ()) = (next_fault (drop 1 rest) = None)) \<and>
              (\<forall>e'. next_fault rest = Some e' \<longrightarrow>
                 r = Inl e' \<and> dep_status d = (if k = 3 then ''success'' else ''building''))"
  proof (intro allI impI)
    fix k e rest
    assume "k < 4 \<and> faults w = replicate k None @ Some e # rest"
    then have k: "k < 4" and sched: "faults w = replicate k None @ Some e # rest"
      by simp_all
    from lifecycle_status [OF row0 k sched, of app groq] d building
    show "(next_fault rest = None \<longrightarrow>
                 dep_status d = ''failed'' \<and>
                 (\<exists>pre. buildLogs d = Some (pre @ newline # failure_line e)) \<and>
                 (r = Inr ()) = (next_fault (drop 1 rest) = None)) \<and>
              (\<forall>e'. next_fault rest = Some e' \<longrightarrow>
                 r = Inl e' \<and> dep_status d = (if k = 3 then ''success'' else ''building''))"
      unfolding r w' by simp
  qed
  show ?thesis
    by (intro exI [of _ d] conjI d old ok thrown schedule_cases [of 4 "faults w"])
qed

theorem processDeployment_lifecycle_witness:
  "getDeployment (store (demo_world [None, None, None, Some ''deadlock''])) 7 = Some demo_deployment \<and>
   dep_status demo_deployment = ''building'' \<and> buildLogs demo_deployment = None \<and>
   (3::nat) < 4 \<and>
   faults (demo_world [None, None, None, Some ''deadlock'']) = replicate 3 None @ Some ''deadlock'' # [] \<and>
   next_fault [] = None \<and>
   fst (processDeployment 7 demo_app (NetworkError ''timeout'')
          (demo_world [None, None, None, Some ''deadlock''])) = Inr () \<and>
   map_option dep_status (getDeployment (store (snd (processDeployment 7 demo_app
       (NetworkError ''timeout'') (demo_world [None, None, None, Some ''deadlock''])))) 7) =
     Some ''failed'' \<and>
   monotone_logs (observed 7 (demo_world [None, None, None, Some ''deadlock''])
          (snd (processDeployment 7 demo_app (NetworkError ''timeout'')
            (demo_world [None, None, None, Some ''deadlock''])))) \<and>
   no_fault 4 (faults (demo_world [])) \<and>
   map_option dep_status (getDeployment (store (snd (processDeployment 7 demo_app
       (NetworkError ''timeout'') (demo_world [])))) 7) = Some ''success''"
proof -
  let ?w = "demo_world [None, None, None, Some ''deadlock'']"
  let ?run = "processDeployment 7 demo_app (NetworkError ''timeout'') ?w"
  let ?v = "demo_world []"
  let ?ok = "processDeployment 7 demo_app (NetworkError ''timeout'') ?v"
  have h1: "getDeployment (store ?w) 7 = Some demo_deployment"
    and g1: "getDeployment (store ?v) 7 = Some demo_deployment"
    by (rule demo_rows)+
  have h2: "dep_status demo_deployment = ''building''" and h3: "buildLogs demo_deployment = None"
    by (simp_all add: demo_deployment_def)
  have h4: "?run = (fst ?run, snd ?run)" and g4: "?ok = (fst ?ok, snd ?ok)"
    by simp_all
  have k: "(3::nat) < 4"
    by simp
  have sched: "faults ?w = replicate 3 None @ Some ''deadlock'' # []"
    by (simp add: demo_rows numeral_3_eq_3)
  have rest: "next_fault [] = None"
    by (simp add: next_fault_def)
  have nf: "no_fault 4 (faults ?v)"
    by (simp add: no_fault_def demo_rows)
  from processDeployment_lifecycle [OF h1 h2 h3 h4]
  obtain d where d: "getDeployment (store (snd ?run)) 7 = Some d"
    and thrown: "\<forall>k e rest. k < 4 \<and> faults ?w = replicate k None @ Some e # rest \<longrightarrow>
              (next_fault rest = None \<longrightarrow>
                 dep_status d = ''failed'' \<and>
                 (\<exists>pre. buildLogs d = Some (pre @ newline # failure_line e)) \<and>
                 (fst ?run = Inr ()) = (next_fault (drop 1 rest) = None)) \<and>
              (\<forall>e'. next_fault rest = Some e' \<longrightarrow>
                 fst ?run = Inl e' \<and> dep_status d = (if k = 3 then ''success'' else ''building''))"
    and mono: "monotone_logs (observed 7 ?w (snd ?run))"
    by (elim exE conjE)
  from thrown [THEN spec [where x = 3], THEN spec [where x = "''deadlock''"],
      THEN spec [where x = "[]"]] k sched rest
  have failed: "dep_status d = ''failed''" and settled: "fst ?run = Inr ()"
    by (simp_all add: next_fault_def)
  from processDeployment_lifecycle [OF g1 h2 h3 g4]
  obtain d' where d': "getDeployment (store (snd ?ok)) 7 = Some d'"
    and ok: "no_fault 4 (faults ?v) \<longrightarrow> fst ?ok = Inr () \<and> dep_status d' = ''success''"
    by (elim exE conjE)
  from ok nf have success: "dep_status d' = ''success''"
    by simp
  show ?thesis
    using h1 h2 h3 k sched rest settled d failed mono nf d' success by simp
qed

text \<open>
  C1 as stated fails in two ways. When the database is down for the whole run, the first
  write throws, the write of the \<open>catch\<close> block throws as well, the task rejects and the row
  stays \<open>building\<close>. And when the error that makes the run fail has a message of two lines,
  the last line of the log is the second line of the message, which does not start with
  \<open>Deployment failed: \<close>.
\<close>

theorem lifecycle_counterexample:
  "fst (processDeployment 7 demo_app (NetworkError ''timeout'')
         (demo_world [Some ''connection refused'', Some ''connection refused''])) =
     Inl ''connection refused'' \<and>
   map_option dep_status
     (getDeployment (store (snd (processDeployment 7 demo_app (NetworkError ''timeout'')
         (demo_world [Some ''connection refused'', Some ''connection refused''])))) 7) =
     Some ''building'' \<and>
   map_option dep_status
     (getDeployment (store (snd (processDeployment 7 demo_app (NetworkError ''timeout'')
         (demo_world [Some two_line_message])))) 7) =
     Some ''failed'' \<and>
   last (log_lines
     (getDeployment (store (snd (processDeployment 7 demo_app (NetworkError ''timeout'')
         (demo_world [Some two_line_message])))) 7)) =
     ''retry later'' \<and>
   \<not> starts_with ''Deployment failed: '' ''retry later''"
proof -
  let ?w = "demo_world [Some two_line_message]"
  let ?run = "processDeployment 7 demo_app (NetworkError ''timeout'') ?w"
  have down: "fst (processDeployment 7 demo_app (NetworkError ''timeout'')
         (demo_world [Some ''connection refused'', Some ''connection refused''])) =
     Inl ''connection refused'' \<and>
   map_option dep_status
     (getDeployment (store (snd (processDeployment 7 demo_app (NetworkError ''timeout'')
         (demo_world [Some ''connection refused'', Some ''connection refused''])))) 7) =
     Some ''building''"
    by (simp add: run_simps demo_rows) (simp add: demo_deployment_def)
  have f: "next_fault (faults ?w) = Some two_line_message"
    and rest: "drop 1 (faults ?w) = []"
    by (simp_all add: demo_rows next_fault_def)
  have row: "getDeployment (store (snd (deployment_try 7 demo_app (NetworkError ''timeout'') ?w))) 7 =
               Some demo_deployment"
    using try_throw1 [OF f, of 7 demo_app "NetworkError ''timeout''"] by (simp add: demo_rows)
  from after_throw [OF _ _ row logs_nonempty(1), of two_line_message "[]"]
    try_throw1 [OF f, of 7 demo_app "NetworkError ''timeout''"]
    try_rest(1) [OF f, of 7 demo_app "NetworkError ''timeout''"] rest
  have failed: "map_option dep_status (getDeployment (store (snd ?run)) 7) = Some ''failed''"
    and logs: "map_option buildLogs (getDeployment (store (snd ?run)) 7) =
      Some (Some (join_lines logsA @ newline # failure_line two_line_message))"
    by (simp_all add: next_fault_def)
  have "newline \<notin> set ''retry later''"
    by (simp add: newline_def)
  then have "last (split_lines (join_lines logsA @ newline # failure_line two_line_message)) =
               ''retry later''"
    unfolding two_line_message_def by (rule two_line_failure)
  with logs have last_line: "last (log_lines (getDeployment (store (snd ?run)) 7)) = ''retry later''"
    by (auto simp: log_lines_def)
  have "\<not> starts_with ''Deployment failed: '' ''retry later''"
    by (simp add: starts_with_def)
  with down failed last_line show ?thesis
    by (intro conjI) simp_all
qed

text \<open>
  Claim C2. When none of the four storage calls of the \<open>try\<close> block throws, whatever the
  analysis service answers, the task resolves; the deployment row gets status \<open>success\<close>
  and \<open>deployedAt\<close> the time of that write, which is the start of the run plus the five
  stage delays; the application the handler loaded gets status \<open>live\<close>, \<open>lastDeployedAt\<close>
  that same time and \<open>deploymentUrl\<close> \<open>https://<subdomain>.seskrow.com\<close>. The statuses
  seen after the four writes show the order: the deployment is \<open>success\<close> one write before
  the application is \<open>live\<close>.
\<close>

theorem processDeployment_success:
  assumes ok: "no_fault 4 (faults w)"
      and row0: "getDeployment (store w) i = Some d0"
      and app0: "getApplication (store w) (app_id app) = Some app"
      and run: "processDeployment i app groq w = (r, w')"
  shows "r = Inr () \<and> clock w' = clock w + 6000 \<and>
         (\<exists>d. getDeployment (store w') i = Some d \<and> dep_status d = ''success'' \<and>
              deployedAt d = Some (clock w + 6000)) \<and>
         (\<exists>a. getApplication (store w') (app_id app) = Some a \<and> app_status a = ''live'' \<and>
              lastDeployedAt a = Some (clock w + 6000) \<and>
              deploymentUrl a = Some (''https://'' @ subdomain app @ ''.seskrow.com'')) \<and>
         observed_statuses i (app_id app) w w' =
           [(Some (dep_status d0), Some (app_status app)), (Some (dep_status d0), Some (app_status app)),
            (Some ''success'', Some (app_status app)), (Some ''success'', Some ''live'')]"
proof -
  note f = no_fault_4 [OF ok]
  let ?wt = "snd (deployment_try i app groq w)"
  note fin = try_done [OF row0 f, of app groq]
  have "deployment_try i app groq w = (Inr (), ?wt)"
    using fin by (metis prod.collapse)
  then have "processDeployment i app groq w = (Inr (), ?wt)"
    by (rule processDeployment_done)
  with run have r: "r = Inr ()" and w': "w' = ?wt"
    by simp_all
  have dep: "\<exists>d. getDeployment (store w') i = Some d \<and> dep_status d = ''success'' \<and>
              deployedAt d = Some (clock w + 6000)"
    using fin by (simp add: w' row_fields)
  have app: "\<exists>a. getApplication (store w') (app_id app) = Some a \<and> app_status a = ''live'' \<and>
              lastDeployedAt a = Some (clock w + 6000) \<and>
              deploymentUrl a = Some (''https://'' @ subdomain app @ ''.seskrow.com'')"
    using fin app0 by (simp add: w' set_application_live)
  have c: "clock w' = clock w + 6000"
    and hist: "observed_statuses i (app_id app) w w' =
           [(Some (dep_status d0), Some (app_status app)), (Some (dep_status d0), Some (app_status app)),
            (Some ''success'', Some (app_status app)), (Some ''success'', Some ''live'')]"
    using try_done_statuses [OF row0 app0 f, of groq] by (simp_all add: w')
  show ?thesis
    by (intro conjI r c dep app hist)
qed


theorem processDeployment_success_witness:
  "no_fault 4 (faults (demo_world [])) \<and>
   getDeployment (store (demo_world [])) 7 = Some demo_deployment \<and>
   getApplication (store (demo_world [])) (app_id demo_app) = Some demo_app \<and>
   fst (processDeployment 7 demo_app (HttpResponse 200 (BodyChoices [Some ''Use a CDN.''])) (demo_world [])) = Inr () \<and>
   (\<exists>a. getApplication (store (snd (processDeployment 7 demo_app
             (HttpResponse 200 (BodyChoices [Some ''Use a CDN.''])) (demo_world [])))) (app_id demo_app) = Some a \<and>
        app_status a = ''live'' \<and> lastDeployedAt a = Some 6010 \<and>
        deploymentUrl a = Some ''https://demo-1.seskrow.com'')"
proof -
  let ?w = "demo_world []"
  let ?run = "processDeployment 7 demo_app (HttpResponse 200 (BodyChoices [Some ''Use a CDN.''])) ?w"
  have h1: "no_fault 4 (faults ?w)"
    by (simp add: no_fault_def demo_rows)
  have h2: "getDeployment (store ?w) 7 = Some demo_deployment"
    by (rule demo_rows)
  have h3: "getApplication (store ?w) (app_id demo_app) = Some demo_app"
    by (simp add: demo_rows)
  have h4: "?run = (fst ?run, snd ?run)"
    by simp
  have sub: "subdomain demo_app = ''demo-1''"
    by (simp add: demo_app_def)
  from processDeployment_success [OF h1 h2 h3 h4] h1 h2 h3 show ?thesis
    by (simp add: demo_rows sub)
qed

text \<open>
  Claim C3, as the code has it. Stage 2 never aborts the pipeline: whatever the analysis call
  does, when no storage call of the \<open>try\<close> block throws, the task resolves and the deployment
  ends \<open>success\<close>. What is logged and stored depends on the outcome of the call, and every
  outcome is one of three.
  \<^item> The request rejects, the status is not 2xx, the body does not parse, or the parsed body
    has no \<open>choices\<close> member to index (\<open>upstream_error\<close>): the third line of the log is
    \<open>GroqAI analysis skipped - using default configuration\<close> and \<open>groqAnalysis\<close> is the object
    whose analysis text is empty; the column is written, not left unset.
  \<^item> The status is 2xx and the body parses and has a \<open>choices\<close> member, but the first choice
    is absent or carries no text (\<open>empty_response\<close>; an empty choice list, and a \<open>choices\<close>
    that is not an array, are of this kind): the code takes the branch of a successful analysis,
    the third line is \<open>GroqAI analysis completed successfully\<close> and the stored text is
    \<open>Analysis completed\<close>.
  \<^item> The status is 2xx and the first choice carries a text: that text is stored, under the
    same line.
  In all three cases the log is the complete log of nine lines around that third line.
\<close>

theorem analysis_failure_is_skipped:
  assumes ok: "no_fault 4 (faults w)"
      and row0: "getDeployment (store w) i = Some d0"
      and run: "processDeployment i app groq w = (r, w')"
  shows "(upstream_error groq \<or> empty_response groq \<or>
          (\<exists>code text cs. response_ok code \<and> text \<noteq> [] \<and>
             groq = HttpResponse code (BodyChoices (Some text # cs)))) \<and>
         r = Inr () \<and>
         (\<exists>d. getDeployment (store w') i = Some d \<and> dep_status d = ''success'' \<and>
            (upstream_error groq \<longrightarrow>
               groqAnalysis d = Some [] \<and>
               buildLogs d =
                 Some (complete_log ''GroqAI analysis skipped - using default configuration'')) \<and>
            (empty_response groq \<longrightarrow>
               groqAnalysis d = Some ''Analysis completed'' \<and>
               buildLogs d = Some (complete_log ''GroqAI analysis completed successfully'')) \<and>
            (\<forall>code text cs. response_ok code \<and> text \<noteq> [] \<and>
                 groq = HttpResponse code (BodyChoices (Some text # cs)) \<longrightarrow>
               groqAnalysis d = Some text \<and>
               buildLogs d = Some (complete_log ''GroqAI analysis completed successfully'')))"
proof -
  let ?d = "rowC groq (clock w + 6000) d0"
  from run_without_fault [OF ok row0, of app groq] run
  have r: "r = Inr ()" and d: "getDeployment (store w') i = Some ?d"
    by simp_all
  have fields: "dep_status ?d = ''success''" "groqAnalysis ?d = Some (fst (analyze groq))"
    "buildLogs ?d = Some (complete_log (snd (analyze groq)))"
    by (simp_all add: row_fields complete_log_eq)
  have "dep_status ?d = ''success'' \<and>
            (upstream_error groq \<longrightarrow>
               groqAnalysis ?d = Some [] \<and>
               buildLogs ?d =
                 Some (complete_log ''GroqAI analysis skipped - using default configuration'')) \<and>
            (empty_response groq \<longrightarrow>
               groqAnalysis ?d = Some ''Analysis completed'' \<and>
               buildLogs ?d = Some (complete_log ''GroqAI analysis completed successfully'')) \<and>
            (\<forall>code text cs. response_ok code \<and> text \<noteq> [] \<and>
                 groq = HttpResponse code (BodyChoices (Some text # cs)) \<longrightarrow>
               groqAnalysis ?d = Some text \<and>
               buildLogs ?d = Some (complete_log ''GroqAI analysis completed successfully''))"
    unfolding fields
    by (auto simp: analyze_upstream_error analyze_empty_response analyze_answered)
  with d have "\<exists>d. getDeployment (store w') i = Some d \<and> dep_status d = ''success'' \<and>
            (upstream_error groq \<longrightarrow>
               groqAnalysis d = Some [] \<and>
               buildLogs d =
                 Some (complete_log ''GroqAI analysis skipped - using default configuration'')) \<and>
            (empty_response groq \<longrightarrow>
               groqAnalysis d = Some ''Analysis completed'' \<and>
               buildLogs d = Some (complete_log ''GroqAI analysis completed successfully'')) \<and>
            (\<forall>code text cs. response_ok code \<and> text \<noteq> [] \<and>
                 groq = HttpResponse code (BodyChoices (Some text # cs)) \<longrightarrow>
               groqAnalysis d = Some text \<and>
               buildLogs d = Some (complete_log ''GroqAI analysis completed successfully''))"
    by (intro exI [of _ ?d] conjI) (elim conjE, assumption)+
  with r outcome_cases [of groq] show ?thesis
    by (intro conjI)
qed

theorem analysis_failure_is_skipped_witness:
  "no_fault 4 (faults (demo_world [])) \<and>
   getDeployment (store (demo_world [])) 7 = Some demo_deployment \<and>
   upstream_error (HttpResponse 503 BodyUnparseable) \<and>
   map_option buildLogs (getDeployment (store (snd (processDeployment 7 demo_app
       (HttpResponse 503 BodyUnparseable) (demo_world [])))) 7) =
     Some (Some (complete_log ''GroqAI analysis skipped - using default configuration'')) \<and>
   empty_response (HttpResponse 200 (BodyChoices [None])) \<and>
   map_option groqAnalysis (getDeployment (store (snd (processDeployment 7 demo_app
       (HttpResponse 200 (BodyChoices [None])) (demo_world [])))) 7) =
     Some (Some ''Analysis completed'') \<and>
   response_ok 200 \<and> ''Use a CDN.'' \<noteq> [] \<and>
   map_option groqAnalysis (getDeployment (store (snd (processDeployment 7 demo_app
       (HttpResponse 200 (BodyChoices [Some ''Use a CDN.''])) (demo_world [])))) 7) =
     Some (Some ''Use a CDN.'')"
proof -
  let ?w = "demo_world []"
  let ?a = "processDeployment 7 demo_app (HttpResponse 503 BodyUnparseable) ?w"
  let ?b = "processDeployment 7 demo_app (HttpResponse 200 (BodyChoices [None])) ?w"
  let ?c = "processDeployment 7 demo_app (HttpResponse 200 (BodyChoices [Some ''Use a CDN.''])) ?w"
  have h1: "no_fault 4 (faults ?w)"
    by (simp add: no_fault_def demo_rows)
  have h2: "getDeployment (store ?w) 7 = Some demo_deployment"
    by (rule demo_rows)
  have a: "?a = (fst ?a, snd ?a)" and b: "?b = (fst ?b, snd ?b)" and c: "?c = (fst ?c, snd ?c)"
    by simp_all
  have e1: "upstream_error (HttpResponse 503 BodyUnparseable)"
    by (simp add: upstream_error_def)
  have e2: "empty_response (HttpResponse 200 (BodyChoices [None]))"
    by (simp add: empty_response_def response_ok_def first_content_def)
  have e3: "response_ok 200" "''Use a CDN.'' \<noteq> []"
    by (simp_all add: response_ok_def)
  from analysis_failure_is_skipped [OF h1 h2 a] e1
  have A: "map_option buildLogs (getDeployment (store (snd ?a)) 7) =
     Some (Some (complete_log ''GroqAI analysis skipped - using default configuration''))"
    by auto
  from analysis_failure_is_skipped [OF h1 h2 b] e2
  have B: "map_option groqAnalysis (getDeployment (store (snd ?b)) 7) =
     Some (Some ''Analysis completed'')"
    by auto
  from analysis_failure_is_skipped [OF h1 h2 c] e3
  have C: "map_option groqAnalysis (getDeployment (store (snd ?c)) 7) = Some (Some ''Use a CDN.'')"
    by auto
  from h1 h2 e1 e2 e3 A B C show ?thesis
    by (intro conjI)
qed

text \<open>
  C3 as stated fails twice. First, on \<open>leaves analysisResult unset\<close>: the second write of the
  pipeline stores \<^verbatim>\<open>{ analysis: '' }\<close> in \<open>groqAnalysis\<close> when the analysis failed. Second, on
  \<open>malformed body\<close>: a 2xx answer whose choice list is empty is not skipped; the log says
  \<open>GroqAI analysis completed successfully\<close> and the stored text is \<open>Analysis completed\<close>.
\<close>

theorem analysis_result_counterexample:
  "upstream_error (NetworkError ''timeout'') \<and>
   map_option groqAnalysis (getDeployment (store (snd (processDeployment 7 demo_app
       (NetworkError ''timeout'') (demo_world [])))) 7) = Some (Some []) \<and>
   empty_response (HttpResponse 200 (BodyChoices [])) \<and>
   log_lines (getDeployment (store (snd (processDeployment 7 demo_app
       (HttpResponse 200 (BodyChoices [])) (demo_world [])))) 7) ! 2 =
     ''GroqAI analysis completed successfully'' \<and>
   map_option groqAnalysis (getDeployment (store (snd (processDeployment 7 demo_app
       (HttpResponse 200 (BodyChoices [])) (demo_world [])))) 7) = Some (Some ''Analysis completed'')"
proof -
  let ?w = "demo_world []"
  let ?a = "processDeployment 7 demo_app (NetworkError ''timeout'') ?w"
  let ?b = "processDeployment 7 demo_app (HttpResponse 200 (BodyChoices [])) ?w"
  have ok: "no_fault 4 (faults ?w)"
    by (simp add: no_fault_def demo_rows)
  have row0: "getDeployment (store ?w) 7 = Some demo_deployment"
    by (rule demo_rows)
  have e1: "upstream_error (NetworkError ''timeout'')"
    by (simp add: upstream_error_def)
  have e2: "empty_response (HttpResponse 200 (BodyChoices []))"
    by (simp add: empty_response_def response_ok_def first_content_def)
  have A: "getDeployment (store (snd ?a)) 7 =
             Some (rowC (NetworkError ''timeout'') (clock ?w + 6000) demo_deployment)"
    using run_without_fault [OF ok row0, of demo_app "NetworkError ''timeout''"] by simp
  have B: "getDeployment (store (snd ?b)) 7 =
             Some (rowC (HttpResponse 200 (BodyChoices [])) (clock ?w + 6000) demo_deployment)"
    using run_without_fault [OF ok row0, of demo_app "HttpResponse 200 (BodyChoices [])"] by simp
  have nl: "newline \<notin> set ''GroqAI analysis completed successfully''"
    by (simp add: newline_def)
  have 1: "map_option groqAnalysis (getDeployment (store (snd ?a)) 7) = Some (Some [])"
    by (simp add: A row_fields analyze_upstream_error [OF e1])
  have 2: "log_lines (getDeployment (store (snd ?b)) 7) ! 2 =
             ''GroqAI analysis completed successfully''"
    by (simp add: B row_fields log_lines_def complete_log_eq analyze_empty_response [OF e2]
          complete_log_lines [OF nl])
  have 3: "map_option groqAnalysis (getDeployment (store (snd ?b)) 7) =
             Some (Some ''Analysis completed'')"
    by (simp add: B row_fields analyze_empty_response [OF e2])
  from e1 1 e2 2 3 show ?thesis
    by (intro conjI)
qed

text \<open>
  Claim C4. In each of the five application-scoped handlers (fetch application, delete,
  fetch deployments, deploy, fetch analytics), once the application has been loaded: no
  application with that id gives 404 \<open>Application not found\<close>, whoever asks; an application
  whose \<open>userId\<close> differs from the principal gives 403 \<open>Access denied\<close>. Neither case writes
  to the database or starts a deployment.
\<close>

theorem ownership_check:
  assumes "next_fault (faults w) = None"
  shows "(getApplication (store w) applicationId = None \<longrightarrow>
            get_application_route sub applicationId w =
              ((404, Message ''Application not found''), w\<lparr> faults := drop 1 (faults w) \<rparr>) \<and>
            delete_application_route sub applicationId w =
              ((404, Message ''Application not found''), w\<lparr> faults := drop 1 (faults w) \<rparr>) \<and>
            get_deployments_route sub applicationId w =
              ((404, Message ''Application not found''), w\<lparr> faults := drop 1 (faults w) \<rparr>) \<and>
            post_deploy_route sub applicationId w =
              (((404, Message ''Application not found''), None), w\<lparr> faults := drop 1 (faults w) \<rparr>) \<and>
            get_analytics_route sub applicationId q w =
              ((404, Message ''Application not found''), w\<lparr> faults := drop 1 (faults w) \<rparr>)) \<and>
         (\<forall>a. getApplication (store w) applicationId = Some a \<and> userId a \<noteq> sub \<longrightarrow>
            get_application_route sub applicationId w =
              ((403, Message ''Access denied''), w\<lparr> faults := drop 1 (faults w) \<rparr>) \<and>
            delete_application_route sub applicationId w =
              ((403, Message ''Access denied''), w\<lparr> faults := drop 1 (faults w) \<rparr>) \<and>
            get_deployments_route sub applicationId w =
              ((403, Message ''Access denied''), w\<lparr> faults := drop 1 (faults w) \<rparr>) \<and>
            post_deploy_route sub applicationId w =
              (((403, Message ''Access denied''), None), w\<lparr> faults := drop 1 (faults w) \<rparr>) \<and>
            get_analytics_route sub applicationId q w =
              ((403, Message ''Access denied''), w\<lparr> faults := drop 1 (faults w) \<rparr>))"
  using assms by (simp add: route_defs await_read_ok)

theorem ownership_check_witness:
  "next_fault (faults (demo_world [])) = None \<and>
   getApplication (store (demo_world [])) 99 = None \<and>
   fst (delete_application_route ''u1'' 99 (demo_world [])) = (404, Message ''Application not found'') \<and>
   getApplication (store (demo_world [])) 3 = Some demo_app \<and> userId demo_app \<noteq> ''intruder'' \<and>
   fst (delete_application_route ''intruder'' 3 (demo_world [])) = (403, Message ''Access denied'')"
proof -
  have h: "next_fault (faults (demo_world [])) = None"
    by (simp add: next_fault_def demo_rows)
  have h1: "getApplication (store (demo_world [])) 99 = None"
    by (simp add: demo_simps getApplication_def first_row_def)
  have h2: "getApplication (store (demo_world [])) 3 = Some demo_app"
    by (rule demo_rows)
  have h3: "userId demo_app \<noteq> ''intruder''"
    by (simp add: demo_app_def)
  from ownership_check [OF h, of 99 "''u1''"] ownership_check [OF h, of 3 "''intruder''"] h h1 h2 h3
  show ?thesis
    by simp
qed

text \<open>
  Claim C5. When the two reads of the creation handler go through, a principal that is
  not premium and owns at least one application gets 403 with the quota message and nothing
  is created. A principal whose user row has \<open>isPremium = true\<close> never gets that answer,
  whatever they own and whatever the driver does.
\<close>

theorem quota_enforced:
  shows "(next_fault (faults w) = None \<and> next_fault (drop 1 (faults w)) = None \<and>
          not_premium (getUser (store w) sub) \<and>
          (\<exists>a \<in> set (applications (store w)). userId a = sub) \<longrightarrow>
            fst (post_applications_route sub b w) = (403, Message quota_message) \<and>
            store (snd (post_applications_route sub b w)) = store w) \<and>
         (\<forall>u. getUser (store w) sub = Some u \<and> isPremium u = Some True \<longrightarrow>
            fst (post_applications_route sub b w) \<noteq> (403, Message quota_message))"
proof (intro conjI impI allI)
  assume a: "next_fault (faults w) = None \<and> next_fault (drop 1 (faults w)) = None \<and>
          not_premium (getUser (store w) sub) \<and>
          (\<exists>a \<in> set (applications (store w)). userId a = sub)"
  then have "1 \<le> length (getUserApplications (store w) sub)"
    by (simp only: owns_one)
  with a show "fst (post_applications_route sub b w) = (403, Message quota_message)"
    and "store (snd (post_applications_route sub b w)) = store w"
    by (simp_all add: post_applications_route_def await_read_ok)
next
  fix u
  assume "getUser (store w) sub = Some u \<and> isPremium u = Some True"
  then have p: "\<not> not_premium (getUser (store w) sub)"
    by (simp add: not_premium_def)
  note defs = post_applications_route_def await_read_ok await_read_throw
    await_write_ok await_write_throw
  show "fst (post_applications_route sub b w) \<noteq> (403, Message quota_message)"
  proof (cases "next_fault (faults w)")
    case (Some e)
    then show ?thesis by (simp add: defs)
  next
    case f1: None
    show ?thesis
    proof (cases "next_fault (drop 1 (faults w))")
      case (Some e)
      then show ?thesis using f1 by (simp add: defs)
    next
      case f2: None
      show ?thesis
      proof (cases "insertApplicationSchema_safeParse b sub")
        case None
        then show ?thesis using f1 f2 p by (simp add: defs)
      next
        case parsed: (Some data)
        show ?thesis
        proof (cases "next_fault (drop 1 (drop 1 (faults w)))")
          case (Some e)
          then show ?thesis using f1 f2 p parsed by (simp add: defs)
        next
          case f3: None
          show ?thesis
          proof (cases "next_fault (drop 1 (drop 1 (drop 1 (faults w))))")
            case (Some e)
            then show ?thesis using f1 f2 f3 p parsed by (simp add: defs)
          next
            case None
            then show ?thesis using f1 f2 f3 p parsed by (simp add: defs)
          qed
        qed
      qed
    qed
  qed
qed

theorem quota_enforced_witness:
  "next_fault (faults (demo_world [])) = None \<and> next_fault (drop 1 (faults (demo_world []))) = None \<and>
   not_premium (getUser (store (demo_world [])) ''u1'') \<and>
   (\<exists>a \<in> set (applications (store (demo_world []))). userId a = ''u1'') \<and>
   fst (post_applications_route ''u1'' (demo_body ''second'') (demo_world [])) = (403, Message quota_message) \<and>
   getUser (store (demo_world [])) ''u2'' = Some demo_premium_user \<and>
   isPremium demo_premium_user = Some True \<and>
   fst (post_applications_route ''u2'' (demo_body ''second'') (demo_world [])) \<noteq> (403, Message quota_message)"
proof -
  have h: "next_fault (faults (demo_world [])) = None \<and>
           next_fault (drop 1 (faults (demo_world []))) = None \<and>
           not_premium (getUser (store (demo_world [])) ''u1'') \<and>
           (\<exists>a \<in> set (applications (store (demo_world []))). userId a = ''u1'')"
    by (simp add: demo_users demo_rows next_fault_def not_premium_def)
  have p: "getUser (store (demo_world [])) ''u2'' = Some demo_premium_user \<and>
           isPremium demo_premium_user = Some True"
    by (simp add: demo_users)
  from quota_enforced [of "demo_world []" "''u1''" "demo_body ''second''"]
    quota_enforced [of "demo_world []" "''u2''" "demo_body ''second''"] h p
  show ?thesis
    by blast
qed




text \<open>
  Claim C7, at an input where the code departs from it. A hundred days into the epoch the
  owner asks for the analytics of the last 30 days; the application has a visit from day
  0 and one from day 99. The handler returns both, newest first: the visit from day 0 is
  seventy days older than the window and is not excluded.
\<close>

theorem analytics_window_not_applied:
  "int (visitedAt old_visit) < int (clock demo_visits_world) - 30 * int day_ms \<and>
   fst (get_analytics_route ''u1'' 3 (Some 30) demo_visits_world) =
     (200, JsonAnalytics [recent_visit, old_visit])"
  by (simp add: get_analytics_route_def await_read_def next_fault_def demo_visits_world_def
        demo_db_def demo_app_def getApplication_def first_row_def days_or_default_def
        getApplicationAnalytics_def order_desc_def sort_key_def old_visit_def recent_visit_def
        day_ms_def Let_def)

text \<open>
  Claim C8, at an input where the code departs from it. The application of user \<open>u1\<close>
  has the subdomain \<open>demo-1\<close>; a visit tracked for \<open>demo-1\<close> is answered 404
  \<open>Application not found\<close> and no analytics event is recorded, because the handler looks
  only among the applications whose owner is the empty string.
\<close>

theorem track_misses_owned_application:
  "applications (store (demo_world [])) = [demo_app] \<and> subdomain demo_app = ''demo-1'' \<and>
   fst (post_track_route ''demo-1'' demo_track_request (demo_world [])) =
     (404, Message ''Application not found'') \<and>
   analytics (store (snd (post_track_route ''demo-1'' demo_track_request (demo_world [])))) = []"
  by (simp add: post_track_route_def await_read_def next_fault_def demo_simps
        getUserApplications_def order_desc_def find_first_def first_row_def)

text \<open>
  Claim C9, as the code has it. The reply of either handler is never empty, whatever the
  analysis service does: a request that rejects, a status that is not 2xx, a body that does
  not parse or has no \<open>choices\<close> member give the fallback text of the handler; a 2xx answer
  whose first choice is absent or has no text gives its text for a missing answer; otherwise
  the reply is the text of the first choice.
  The public handler answers a non-empty message with 200 and that reply, and a missing or
  empty message with 400. The authenticated handler validates the body against the insert
  schema of the conversation table, which requires \<open>message\<close> and \<open>response\<close>:
  \<^item> a body without one of them is answered with 400, and nothing is stored nor asked of the
    analysis service;
  \<^item> a body with both is answered with 201 and the stored conversation when the insert goes
    through; the row added is the only one, it carries the principal, the message and the
    reply, never the \<open>response\<close> the client sent;
  \<^item> a body with both is answered with 500 when the insert throws, and nothing is stored.
\<close>

theorem chat_always_answers:
  "(m \<noteq> [] \<longrightarrow>
      post_public_chat_route (Some m) groq = (200, JsonChatResponse (public_chat_reply groq))) \<and>
   public_chat_reply groq \<noteq> [] \<and>
   (cb_message b = Some m \<and> cb_response b = Some r0 \<and> next_fault (faults w) = None \<longrightarrow>
      (\<exists>conv. fst (post_chat_route sub b groq w) = (201, JsonConversation conv) \<and>
         conv_userId conv = sub \<and> message conv = m \<and> response conv = chat_reply groq \<and>
         groqConversations (store (snd (post_chat_route sub b groq w))) =
           groqConversations (store w) @ [conv])) \<and>
   chat_reply groq \<noteq> [] \<and>
   (upstream_error groq \<longrightarrow>
      chat_reply groq = chat_fallback \<and>
      (public_chat_reply groq = public_chat_not_ok \<or>
       public_chat_reply groq = public_chat_unavailable)) \<and>
   (empty_response groq \<longrightarrow>
      chat_reply groq = chat_empty_fallback \<and>
      public_chat_reply groq = public_chat_empty_fallback) \<and>
   (\<forall>code text cs. response_ok code \<and> text \<noteq> [] \<and>
        groq = HttpResponse code (BodyChoices (Some text # cs)) \<longrightarrow>
      chat_reply groq = text \<and> public_chat_reply groq = text) \<and>
   (cb_message b = None \<or> cb_response b = None \<longrightarrow>
      post_chat_route sub b groq w = ((400, ValidationMessage), w)) \<and>
   (\<forall>e. cb_message b = Some m \<and> cb_response b = Some r0 \<and> next_fault (faults w) = Some e \<longrightarrow>
      fst (post_chat_route sub b groq w) = (500, Message ''Failed to process chat message'') \<and>
      store (snd (post_chat_route sub b groq w)) = store w) \<and>
   post_public_chat_route None groq = (400, Message ''Message is required'') \<and>
   post_public_chat_route (Some []) groq = (400, Message ''Message is required'')"
proof -
  have c1: "m \<noteq> [] \<longrightarrow>
      post_public_chat_route (Some m) groq = (200, JsonChatResponse (public_chat_reply groq))"
    by (simp add: post_public_chat_route_def)
  let ?conv = "fst (createConversation (store w)
      \<lparr> ic_userId = sub, ic_message = m, ic_response = chat_reply groq \<rparr> (clock w))"
  have c3: "cb_message b = Some m \<and> cb_response b = Some r0 \<and> next_fault (faults w) = None \<longrightarrow>
      (\<exists>conv. fst (post_chat_route sub b groq w) = (201, JsonConversation conv) \<and>
         conv_userId conv = sub \<and> message conv = m \<and> response conv = chat_reply groq \<and>
         groqConversations (store (snd (post_chat_route sub b groq w))) =
           groqConversations (store w) @ [conv])"
  proof
    assume a: "cb_message b = Some m \<and> cb_response b = Some r0 \<and> next_fault (faults w) = None"
    have "fst (post_chat_route sub b groq w) = (201, JsonConversation ?conv) \<and>
           conv_userId ?conv = sub \<and> message ?conv = m \<and> response ?conv = chat_reply groq \<and>
           groqConversations (store (snd (post_chat_route sub b groq w))) =
             groqConversations (store w) @ [?conv]"
      using a
      by (simp add: post_chat_route_def insertGroqConversationSchema_safeParse_def await_write_ok
            createConversation_def Let_def)
    then show "\<exists>conv. fst (post_chat_route sub b groq w) = (201, JsonConversation conv) \<and>
           conv_userId conv = sub \<and> message conv = m \<and> response conv = chat_reply groq \<and>
           groqConversations (store (snd (post_chat_route sub b groq w))) =
             groqConversations (store w) @ [conv]"
      by (rule exI)
  qed
  have c5: "upstream_error groq \<longrightarrow>
      chat_reply groq = chat_fallback \<and>
      (public_chat_reply groq = public_chat_not_ok \<or>
       public_chat_reply groq = public_chat_unavailable)"
    by (simp add: chat_reply_upstream_error)
  have c6: "empty_response groq \<longrightarrow>
      chat_reply groq = chat_empty_fallback \<and>
      public_chat_reply groq = public_chat_empty_fallback"
    by (simp add: chat_reply_empty_response)
  have c7: "\<forall>code text cs. response_ok code \<and> text \<noteq> [] \<and>
        groq = HttpResponse code (BodyChoices (Some text # cs)) \<longrightarrow>
      chat_reply groq = text \<and> public_chat_reply groq = text"
    by (simp add: chat_reply_answered)
  have c8: "cb_message b = None \<or> cb_response b = None \<longrightarrow>
      post_chat_route sub b groq w = ((400, ValidationMessage), w)"
    by (auto simp: post_chat_route_def insertGroqConversationSchema_safeParse_def
          split: option.splits)
  have c9: "\<forall>e. cb_message b = Some m \<and> cb_response b = Some r0 \<and> next_fault (faults w) = Some e \<longrightarrow>
      fst (post_chat_route sub b groq w) = (500, Message ''Failed to process chat message'') \<and>
      store (snd (post_chat_route sub b groq w)) = store w"
    by (simp add: post_chat_route_def insertGroqConversationSchema_safeParse_def
          await_write_throw Let_def)
  have c10: "post_public_chat_route None groq = (400, Message ''Message is required'')"
    "post_public_chat_route (Some []) groq = (400, Message ''Message is required'')"
    by (simp_all add: post_public_chat_route_def)
  show ?thesis
    by (intro conjI c1 public_chat_reply_nonempty c3 chat_reply_nonempty c5 c6 c7 c8 c9 c10)
qed

theorem chat_always_answers_witness:
  "''How do I deploy?'' \<noteq> [] \<and>
   cb_message demo_chat_body = Some ''How do I deploy?'' \<and> cb_response demo_chat_body = Some [] \<and>
   next_fault (faults (demo_world [])) = None \<and> upstream_error (NetworkError ''timeout'') \<and>
   post_public_chat_route (Some ''How do I deploy?'') (NetworkError ''timeout'') =
     (200, JsonChatResponse public_chat_unavailable) \<and>
   (\<exists>conv. fst (post_chat_route ''u1'' demo_chat_body (NetworkError ''timeout'') (demo_world [])) =
        (201, JsonConversation conv) \<and> response conv = chat_fallback) \<and>
   empty_response (HttpResponse 200 (BodyChoices [])) \<and>
   chat_reply (HttpResponse 200 (BodyChoices [])) = chat_empty_fallback \<and>
   response_ok 200 \<and>
   public_chat_reply (HttpResponse 200 (BodyChoices [Some ''Use a CDN.''])) = ''Use a CDN.'' \<and>
   next_fault (faults (demo_world [Some ''deadlock''])) = Some ''deadlock'' \<and>
   fst (post_chat_route ''u1'' demo_chat_body (NetworkError ''timeout'')
          (demo_world [Some ''deadlock''])) = (500, Message ''Failed to process chat message'') \<and>
   cb_response \<lparr> cb_message = Some ''How do I deploy?'', cb_response = None \<rparr> = None \<and>
   fst (post_chat_route ''u1'' \<lparr> cb_message = Some ''How do I deploy?'', cb_response = None \<rparr>
          (NetworkError ''timeout'') (demo_world [])) = (400, ValidationMessage)"
proof -
  let ?m = "''How do I deploy?''"
  let ?nb = "\<lparr> cb_message = Some ?m, cb_response = None \<rparr>"
  have h1: "?m \<noteq> []"
    by simp
  have h2: "cb_message demo_chat_body = Some ?m" "cb_response demo_chat_body = Some []"
    "next_fault (faults (demo_world [])) = None"
    by (simp_all add: demo_chat_body_def demo_rows next_fault_def)
  have h3: "upstream_error (NetworkError ''timeout'')"
    by (simp add: upstream_error_def)
  have h4: "empty_response (HttpResponse 200 (BodyChoices []))"
    by (simp add: empty_response_def response_ok_def first_content_def)
  have h5: "response_ok 200"
    by (simp add: response_ok_def)
  have h6: "next_fault (faults (demo_world [Some ''deadlock''])) = Some ''deadlock''"
    by (simp add: demo_rows next_fault_def)
  have h7: "cb_response ?nb = None"
    by simp
  have p: "public_chat_reply (NetworkError ''timeout'') = public_chat_unavailable"
    by (simp add: public_chat_reply_def)
  note A = chat_always_answers [of ?m "NetworkError ''timeout''" demo_chat_body "[]"
      "demo_world []" "''u1''"]
  note B = chat_always_answers [of ?m "HttpResponse 200 (BodyChoices [])" demo_chat_body "[]"
      "demo_world []" "''u1''"]
  note C = chat_always_answers [of ?m "HttpResponse 200 (BodyChoices [Some ''Use a CDN.''])"
      demo_chat_body "[]" "demo_world []" "''u1''"]
  note D = chat_always_answers [of ?m "NetworkError ''timeout''" demo_chat_body "[]"
      "demo_world [Some ''deadlock'']" "''u1''"]
  note E = chat_always_answers [of ?m "NetworkError ''timeout''" ?nb "[]" "demo_world []" "''u1''"]
  have 1: "post_public_chat_route (Some ?m) (NetworkError ''timeout'') =
     (200, JsonChatResponse public_chat_unavailable)"
    using A h1 p by simp
  have 2: "\<exists>conv. fst (post_chat_route ''u1'' demo_chat_body (NetworkError ''timeout'') (demo_world [])) =
        (201, JsonConversation conv) \<and> response conv = chat_fallback"
    using A h2 h3 by auto
  have 3: "chat_reply (HttpResponse 200 (BodyChoices [])) = chat_empty_fallback"
    using B h4 by simp
  have 4: "public_chat_reply (HttpResponse 200 (BodyChoices [Some ''Use a CDN.''])) = ''Use a CDN.''"
    using C h5 by simp
  have 5: "fst (post_chat_route ''u1'' demo_chat_body (NetworkError ''timeout'')
          (demo_world [Some ''deadlock''])) = (500, Message ''Failed to process chat message'')"
    using D h2 h6 by simp
  have 6: "fst (post_chat_route ''u1'' ?nb (NetworkError ''timeout'') (demo_world [])) =
     (400, ValidationMessage)"
    using E h7 by simp
  from h1 h2 h3 1 2 h4 3 h5 4 h6 5 h7 6 show ?thesis
    by (intro conjI)
qed

text \<open>
  C9 as stated fails for the authenticated handler: a valid \<open>message\<close> is not enough. A body
  with a message and no \<open>response\<close> member is answered with 400 although the analysis service
  has an answer, and a body that passes the schema is answered with 500, with no row stored,
  when the insert throws.
\<close>

theorem chat_counterexample:
  "cb_message \<lparr> cb_message = Some ''How do I deploy?'', cb_response = None \<rparr> =
     Some ''How do I deploy?'' \<and>
   post_chat_route ''u1'' \<lparr> cb_message = Some ''How do I deploy?'', cb_response = None \<rparr>
       (HttpResponse 200 (BodyChoices [Some ''Use a CDN.''])) (demo_world []) =
     ((400, ValidationMessage), demo_world []) \<and>
   fst (post_chat_route ''u1'' demo_chat_body (HttpResponse 200 (BodyChoices [Some ''Use a CDN.'']))
          (demo_world [Some ''deadlock''])) = (500, Message ''Failed to process chat message'') \<and>
   groqConversations (store (snd (post_chat_route ''u1'' demo_chat_body
       (HttpResponse 200 (BodyChoices [Some ''Use a CDN.''])) (demo_world [Some ''deadlock''])))) = []"
  by (simp add: post_chat_route_def insertGroqConversationSchema_safeParse_def demo_chat_body_def
        await_write_throw demo_rows next_fault_def Let_def demo_simps)

text \<open>
  Claim C10, as the code has it. The \<open>catch\<close> block leaves the deployments table as it was
  when its deployment write throws, and otherwise writes status \<open>failed\<close> and the log text
  to the deployment and nothing else; so it leaves \<open>deployedAt\<close> of every row as it was, and
  the same holds of a whole run from the point where the \<open>try\<close> block throws. Take a deployment row as the deploy handler creates
  it (status \<open>building\<close>, \<open>deployedAt\<close> unset) and any run on it: at the end \<open>deployedAt\<close> is
  the time of the success write if some write of the run left the row \<open>success\<close>, and unset
  otherwise. Only the success write assigns it, but a row that was \<open>success\<close> and then became
  \<open>failed\<close> keeps it.
\<close>

theorem deployedAt_written_by_success_update_only:
  assumes row0: "getDeployment (store w) i = Some d0"
      and building: "dep_status d0 = ''building''"
      and unset: "deployedAt d0 = None"
      and run: "processDeployment i app groq w = (r, w')"
  shows "deployments (store (snd (deployment_catch i app logs e w1))) =
           (if next_fault (faults w1) = None
            then map (mark_failed i (join_lines (logs @ [failure_line e]))) (deployments (store w1))
            else deployments (store w1)) \<and>
         map_option deployedAt
           (getDeployment (store (snd (deployment_catch i app logs e w1))) j) =
         map_option deployedAt (getDeployment (store w1) j) \<and>
         (\<forall>e' logs' wt. deployment_try i app groq w = (Inl (e', logs'), wt) \<longrightarrow>
            deployments (store w') =
              (if next_fault (faults wt) = None
               then map (mark_failed i (join_lines (logs' @ [failure_line e'])))
                      (deployments (store wt))
               else deployments (store wt))) \<and>
         (\<exists>d. getDeployment (store w') i = Some d \<and>
           (if success_seen i w w' then deployedAt d = Some (clock w + 6000)
            else deployedAt d = None))"
proof (intro conjI)
  show "deployments (store (snd (deployment_catch i app logs e w1))) =
           (if next_fault (faults w1) = None
            then map (mark_failed i (join_lines (logs @ [failure_line e]))) (deployments (store w1))
            else deployments (store w1))"
    by (rule deployment_catch_table)
next
  show "map_option deployedAt
           (getDeployment (store (snd (deployment_catch i app logs e w1))) j) =
         map_option deployedAt (getDeployment (store w1) j)"
    by (rule deployment_catch_frame)
next
  show "\<forall>e' logs' wt. deployment_try i app groq w = (Inl (e', logs'), wt) \<longrightarrow>
            deployments (store w') =
              (if next_fault (faults wt) = None
               then map (mark_failed i (join_lines (logs' @ [failure_line e'])))
                      (deployments (store wt))
               else deployments (store wt))"
  proof (intro allI impI)
    fix e' logs' wt
    assume "deployment_try i app groq w = (Inl (e', logs'), wt)"
    then have "deployment_catch i app logs' e' wt = (r, w')"
      using run by (simp add: processDeployment_throw)
    then have "w' = snd (deployment_catch i app logs' e' wt)"
      by simp
    then show "deployments (store w') =
              (if next_fault (faults wt) = None
               then map (mark_failed i (join_lines (logs' @ [failure_line e'])))
                      (deployments (store wt))
               else deployments (store wt))"
      using deployment_catch_table [of i app logs' e' wt] by simp
  qed
next
  let ?goal = "\<exists>d. getDeployment (store w') i = Some d \<and>
           (if success_seen i w w' then deployedAt d = Some (clock w + 6000)
            else deployedAt d = None)"
  obtain rt wt where T: "deployment_try i app groq w = (rt, wt)"
    by (cases "deployment_try i app groq w")
  have catch: ?goal
    if rt: "rt = Inl (e, logs)"
      and rowt: "getDeployment (store wt) i = Some d1"
      and rowst: "observed_rows i wt = observed_rows i w @ news"
      and d1: "if Some ''success'' \<in> set (map (map_option dep_status) news)
               then deployedAt d1 = Some (clock w + 6000) else deployedAt d1 = None"
    for e logs d1 news
  proof -
    have C: "deployment_catch i app logs e wt = (r, w')"
      using run T rt by (simp add: processDeployment_throw)
    from deployment_catch_outcomes [OF rowt C] show ?goal
    proof (elim disjE conjE)
      assume "getDeployment (store w') i = Some d1" "observed_rows i w' = observed_rows i wt"
      then show ?goal
        using d1 rowst by (simp add: success_seen_eq)
    next
      assume "getDeployment (store w') i = Some (rowF logs e d1)"
        "observed_rows i w' = observed_rows i wt @ [Some (rowF logs e d1)]"
      then show ?goal
        using d1 rowst by (simp add: success_seen_eq row_fields)
    next
      assume "getDeployment (store w') i = Some (rowF logs e d1)"
        "observed_rows i w' = observed_rows i wt @ [Some (rowF logs e d1), Some (rowF logs e d1)]"
      then show ?goal
        using d1 rowst by (simp add: success_seen_eq row_fields)
    qed
  qed
  from deployment_try_outcomes [OF row0 T] show ?goal
  proof (elim disjE exE conjE)
    fix e
    assume "rt = Inl (e, logsA)" "getDeployment (store wt) i = Some d0"
      "observed_rows i wt = observed_rows i w"
    then show ?goal
      using building unset by (intro catch [of e logsA d0 "[]"]) simp_all
  next
    fix e
    assume "rt = Inl (e, logsB groq)" "getDeployment (store wt) i = Some (rowA d0)"
      "observed_rows i wt = observed_rows i w @ [Some (rowA d0)]"
    then show ?goal
      using building unset
      by (intro catch [of e "logsB groq" "rowA d0" "[Some (rowA d0)]"]) (simp_all add: row_fields)
  next
    fix e
    assume "rt = Inl (e, logsC groq)" "getDeployment (store wt) i = Some (rowB groq d0)"
      "observed_rows i wt = observed_rows i w @ [Some (rowA d0), Some (rowB groq d0)]"
    then show ?goal
      using building unset
      by (intro catch [of e "logsC groq" "rowB groq d0" "[Some (rowA d0), Some (rowB groq d0)]"])
        (simp_all add: row_fields)
  next
    fix e
    assume "rt = Inl (e, logsC groq)"
      "getDeployment (store wt) i = Some (rowC groq (clock w + 6000) d0)"
      "observed_rows i wt = observed_rows i w @ [Some (rowA d0), Some (rowB groq d0),
                                Some (rowC groq (clock w + 6000) d0)]"
    then show ?goal
      using building unset
      by (intro catch [of e "logsC groq" "rowC groq (clock w + 6000) d0"
              "[Some (rowA d0), Some (rowB groq d0), Some (rowC groq (clock w + 6000) d0)]"])
        (simp_all add: row_fields)
  next
    assume "rt = Inr ()" "getDeployment (store wt) i = Some (rowC groq (clock w + 6000) d0)"
      "observed_rows i wt = observed_rows i w @ [Some (rowA d0), Some (rowB groq d0),
                                Some (rowC groq (clock w + 6000) d0),
                                Some (rowC groq (clock w + 6000) d0)]"
    then show ?goal
      using run T by (simp add: processDeployment_done success_seen_eq row_fields)
  qed
qed

theorem deployedAt_written_by_success_update_only_witness:
  "getDeployment (store (demo_world [None, None, None, Some ''deadlock''])) 7 = Some demo_deployment \<and>
   dep_status demo_deployment = ''building'' \<and> deployedAt demo_deployment = None \<and>
   fst (deployment_try 7 demo_app (NetworkError ''timeout'')
          (demo_world [None, None, None, Some ''deadlock''])) =
     Inl (''deadlock'', logsC (NetworkError ''timeout'')) \<and>
   success_seen 7 (demo_world [None, None, None, Some ''deadlock''])
     (snd (processDeployment 7 demo_app (NetworkError ''timeout'')
        (demo_world [None, None, None, Some ''deadlock'']))) \<and>
   map_option deployedAt (getDeployment (store (snd (processDeployment 7 demo_app
       (NetworkError ''timeout'') (demo_world [None, None, None, Some ''deadlock''])))) 7) =
     Some (Some 6010)"
proof -
  let ?w = "demo_world [None, None, None, Some ''deadlock'']"
  let ?run = "processDeployment 7 demo_app (NetworkError ''timeout'') ?w"
  have h1: "getDeployment (store ?w) 7 = Some demo_deployment"
    by (rule demo_rows)
  have h2: "dep_status demo_deployment = ''building''" and h3: "deployedAt demo_deployment = None"
    by (simp_all add: demo_deployment_def)
  have h4: "?run = (fst ?run, snd ?run)"
    by simp
  have t: "fst (deployment_try 7 demo_app (NetworkError ''timeout'') ?w) =
             Inl (''deadlock'', logsC (NetworkError ''timeout''))"
    using try_throw4 [OF h1, of "''deadlock''" demo_app "NetworkError ''timeout''"]
    by (simp add: demo_rows next_fault_def)
  have s: "success_seen 7 ?w (snd ?run)"
    by (simp add: success_seen_def observed_rows_def run_simps demo_rows)
  from deployedAt_written_by_success_update_only [OF h1 h2 h3 h4] s t h1 h2 h3 show ?thesis
    by (auto simp: demo_rows)
qed

text \<open>
  C10 as stated fails when the application update that follows the success write throws:
  the \<open>catch\<close> block then marks the deployment \<open>failed\<close>, and \<open>deployedAt\<close> stays set.
\<close>

theorem deployedAt_counterexample:
  "map_option dep_status (getDeployment (store (snd (processDeployment 7 demo_app
       (NetworkError ''timeout'') (demo_world [None, None, None, Some ''deadlock''])))) 7) =
     Some ''failed'' \<and>
   map_option deployedAt (getDeployment (store (snd (processDeployment 7 demo_app
       (NetworkError ''timeout'') (demo_world [None, None, None, Some ''deadlock''])))) 7) =
     Some (Some 6010)"
  by (simp add: run_simps demo_rows)

end
